theory Spec2Isabelle
  imports Complex_Main "HOL-Library.Sublist"
begin

section \<open>Strings\<close>

text \<open>
  Status labels and table keys are ASCII strings. \<open>upper\<close> is Python's \<open>str.upper\<close> on
  ASCII text: the 26 lower-case letters are mapped, every other character is kept.
\<close>

definition ascii_lowercase :: string where
  "ascii_lowercase = ''abcdefghijklmnopqrstuvwxyz''"

definition ascii_uppercase :: string where
  "ascii_uppercase = ''ABCDEFGHIJKLMNOPQRSTUVWXYZ''"

definition upper_char :: "char \<Rightarrow> char" where
  "upper_char c =
     (case map_of (zip ascii_lowercase ascii_uppercase) c of None \<Rightarrow> c | Some u \<Rightarrow> u)"

definition upper :: "string \<Rightarrow> string" where
  "upper s = map upper_char s"

text \<open>\<open>str_in key s\<close> is Python's \<open>key in s\<close> on strings: \<open>key\<close> occurs in \<open>s\<close> as a
  contiguous run of characters.\<close>

fun str_in :: "string \<Rightarrow> string \<Rightarrow> bool" where
  "str_in key [] = (key = [])"
| "str_in key (c # cs) = (prefix key (c # cs) \<or> str_in key cs)"

section \<open>Status colours (generate_gantt_image, the colour table and its loop)\<close>

text \<open>The dictionary \<open>status_colors\<close>, in insertion order, which is the order
  \<open>status_colors.items()\<close> iterates in.\<close>

definition status_colors :: "(string \<times> string) list" where
  "status_colors =
    [(''ACHIEVED'', ''#8dd879''),
     (''COMPLETE'', ''#8dd879''),
     (''COMPLETED'', ''#8dd879''),
     (''APPROVED'', ''#8dd879''),
     (''FINALIZED'', ''#8dd879''),
     (''DONE'', ''#8dd879''),
     (''CLOSED'', ''#8dd879''),
     (''MONITORING'', ''#a8c5f0''),
     (''IMPLEMENTING'', ''#a8c5f0''),
     (''PROGRESS'', ''#a8c5f0''),
     (''REVIEWING'', ''#a8c5f0''),
     (''IN PROGRESS'', ''#a8c5f0''),
     (''TODO'', ''#e0e0e0''),
     (''TO DO'', ''#e0e0e0''),
     (''OPEN'', ''#e0e0e0''),
     (''DRAFTING'', ''#e0e0e0''),
     (''NOT STARTED'', ''#e0e0e0'')]"

text \<open>
  The loop \<open>for key, col in status_colors.items(): if key in label: color = col; break\<close>,
  started with the colour assigned before it.
\<close>

fun pick_color :: "(string \<times> string) list \<Rightarrow> string \<Rightarrow> string \<Rightarrow> string" where
  "pick_color [] label color = color"
| "pick_color ((key, col) # rest) label color =
     (if str_in key label then col else pick_color rest label color)"

definition status_color :: "string \<Rightarrow> string" where
  "status_color status = pick_color status_colors (upper status) ''#e0e0e0''"

section \<open>Python values and errors\<close>

datatype py_error = TypeError | ValueError | OverflowError | IndexError

text \<open>
  A value decoded from a JSON response body (\<open>response.json()\<close>): \<open>None\<close>, a bool, an
  int, a float, a string, a list or a dict. A float is not-a-number, an infinity or a
  finite rational.
\<close>

datatype pyfloat = FNan | FInf | FNegInf | FFinite rat

datatype json =
    JNull
  | JBool bool
  | JInt int
  | JFloat pyfloat
  | JStr string
  | JArr "json list"
  | JObj "(string \<times> json) list"

text \<open>Python's truth value of such a value, as \<open>not timestamp\<close> tests it.\<close>

fun truthy :: "json \<Rightarrow> bool" where
  "truthy JNull = False"
| "truthy (JBool b) = b"
| "truthy (JInt n) = (n \<noteq> 0)"
| "truthy (JFloat f) = (f \<noteq> FFinite 0)"
| "truthy (JStr s) = (s \<noteq> [])"
| "truthy (JArr xs) = (xs \<noteq> [])"
| "truthy (JObj kvs) = (kvs \<noteq> [])"

text \<open>
  Python's \<open>int(s)\<close> on an ASCII string, base 10: white space around the number is
  skipped, one sign is allowed, and the digits may be separated by single underscores;
  anything else raises \<open>ValueError\<close>. (Recent versions also raise \<open>ValueError\<close> on a
  string of more than 4300 digits; the limit is not part of this function.)
\<close>

definition py_isspace :: "char \<Rightarrow> bool" where
  "py_isspace c = (c \<in> set [CHR 0x09, CHR 0x0A, CHR 0x0B, CHR 0x0C, CHR 0x0D, CHR '' ''])"

definition digit_value :: "char \<Rightarrow> int option" where
  "digit_value c = map_of (zip ''0123456789'' [0, 1, 2, 3, 4, 5, 6, 7, 8, 9]) c"

definition is_digit :: "char \<Rightarrow> bool" where
  "is_digit c = (digit_value c \<noteq> None)"

definition digits_to_int :: "string \<Rightarrow> int" where
  "digits_to_int ds =
     foldl (\<lambda>acc c. 10 * acc + (case digit_value c of None \<Rightarrow> 0 | Some v \<Rightarrow> v)) 0 ds"

definition strip_sign :: "string \<Rightarrow> bool \<times> string" where
  "strip_sign s =
     (case s of
        [] \<Rightarrow> (False, s)
      | c # r \<Rightarrow>
          if c = CHR ''+'' then (False, r)
          else if c = CHR ''-'' then (True, r)
          else (False, s))"

definition int_of_str :: "string \<Rightarrow> py_error + int" where
  "int_of_str s =
     (let (neg, body) = strip_sign (dropWhile py_isspace s);
          run = takeWhile (\<lambda>c. is_digit c \<or> c = CHR ''_'') body;
          rest = dropWhile (\<lambda>c. is_digit c \<or> c = CHR ''_'') body
      in if run = [] \<or> hd run = CHR ''_'' \<or> last run = CHR ''_'' \<or> str_in ''__'' run
            \<or> \<not> list_all py_isspace rest
         then Inl ValueError
         else Inr ((if neg then - 1 else 1) * digits_to_int (filter is_digit run)))"

text \<open>\<open>int(x)\<close> on a float truncates towards zero.\<close>

definition float_trunc :: "rat \<Rightarrow> int" where
  "float_trunc q = (if 0 \<le> q then \<lfloor>q\<rfloor> else \<lceil>q\<rceil>)"

fun py_int :: "json \<Rightarrow> py_error + int" where
  "py_int JNull = Inl TypeError"
| "py_int (JBool b) = Inr (if b then 1 else 0)"
| "py_int (JInt n) = Inr n"
| "py_int (JFloat FNan) = Inl ValueError"
| "py_int (JFloat FInf) = Inl OverflowError"
| "py_int (JFloat FNegInf) = Inl OverflowError"
| "py_int (JFloat (FFinite q)) = Inr (float_trunc q)"
| "py_int (JStr s) = int_of_str s"
| "py_int (JArr xs) = Inl TypeError"
| "py_int (JObj kvs) = Inl TypeError"

section \<open>Dates\<close>

text \<open>
  A \<open>datetime\<close> is a count of microseconds on the local wall clock, from
  0001-01-01 00:00:00, the least value of Python's type; the greatest is
  9999-12-31 23:59:59.999999. Arithmetic with a \<open>timedelta\<close> raises \<open>OverflowError\<close>
  when the result leaves that range.
\<close>

type_synonym datetime = int

definition dt_max :: datetime where
  "dt_max = 315537897599999999"

definition days :: "int \<Rightarrow> int" where
  "days n = n * 86400000000"

definition dt_add :: "datetime \<Rightarrow> int \<Rightarrow> py_error + datetime" where
  "dt_add d delta =
     (if 0 \<le> d + delta \<and> d + delta \<le> dt_max then Inr (d + delta) else Inl OverflowError)"

definition dt_sub :: "datetime \<Rightarrow> int \<Rightarrow> py_error + datetime" where
  "dt_sub d delta = dt_add d (- delta)"

text \<open>
  \<open>datetime.fromtimestamp(n / 1000)\<close> for an int \<open>n\<close>. The conversion of an instant to
  the local wall clock depends on the machine's time zone, and goes through a float: it
  is the parameter \<open>clock\<close>, which gives the microsecond count for \<open>n\<close> milliseconds
  since the epoch, or \<open>None\<close> where the division or the C library's conversion raises.
  A count outside the years 1 to 9999 raises \<open>ValueError\<close>.
\<close>

type_synonym clock = "int \<Rightarrow> int option"

definition fromtimestamp :: "clock \<Rightarrow> int \<Rightarrow> py_error + datetime" where
  "fromtimestamp clock n =
     (case clock n of
        None \<Rightarrow> Inl OverflowError
      | Some us \<Rightarrow> if 0 \<le> us \<and> us \<le> dt_max then Inr us else Inl ValueError)"

text \<open>A machine on UTC, on the timestamps a float holds exactly: 1970-01-01 is
  719162 days after 0001-01-01.\<close>

definition utc_clock :: clock where
  "utc_clock n = Some (days 719162 + n * 1000)"

section \<open>clickup_timestamp_to_date\<close>

text \<open>The body of the \<open>try\<close>: \<open>datetime.fromtimestamp(int(timestamp) / 1000)\<close>.\<close>

definition timestamp_body :: "clock \<Rightarrow> json \<Rightarrow> py_error + datetime" where
  "timestamp_body clock timestamp =
     (case py_int timestamp of
        Inl e \<Rightarrow> Inl e
      | Inr n \<Rightarrow> fromtimestamp clock n)"

text \<open>The bare \<open>except\<close> catches every error of the body and returns \<open>None\<close>.\<close>

definition clickup_timestamp_to_date :: "clock \<Rightarrow> json \<Rightarrow> datetime option" where
  "clickup_timestamp_to_date clock timestamp =
     (if \<not> truthy timestamp then None
      else case timestamp_body clock timestamp of
             Inl e \<Rightarrow> None
           | Inr d \<Rightarrow> Some d)"

section \<open>generate_gantt_image\<close>

text \<open>
  A task record of the task-tracking API. \<open>task.get("start_date")\<close> is \<open>None\<close> both for
  an absent key and for a JSON null: \<open>JNull\<close> stands for both. \<open>name\<close> is \<open>None\<close> when
  the key is absent; \<open>status\<close> is \<open>None\<close> when the record has no status object, and
  \<open>Some None\<close> when that object has no label.
\<close>

record task =
  name :: "string option"
  start_date :: json
  due_date :: json
  status :: "string option option"

text \<open>An entry of \<open>valid_tasks\<close>.\<close>

record chart_task =
  cname :: string
  cstart :: datetime
  cend :: datetime
  cstatus :: string

definition task_name_of :: "task \<Rightarrow> string" where
  "task_name_of t = (case name t of None \<Rightarrow> ''Sin nombre'' | Some n \<Rightarrow> n)"

definition status_of :: "task \<Rightarrow> string" where
  "status_of t =
     (case status t of
        None \<Rightarrow> ''Sin Status''
      | Some None \<Rightarrow> ''Sin Status''
      | Some (Some s) \<Rightarrow> s)"

text \<open>
  The body of the first loop, for one task: \<open>Inr None\<close> is \<open>continue\<close> (the task is
  discarded), \<open>Inr (Some ct)\<close> is the entry appended to \<open>valid_tasks\<close>, and \<open>Inl e\<close> is
  an error raised by the date arithmetic. The two assignments are made in the order of
  the source, the second test reading the start date the first may have set.
\<close>

definition resolve_task :: "clock \<Rightarrow> task \<Rightarrow> py_error + chart_task option" where
  "resolve_task clock t =
     (let start_date0 = clickup_timestamp_to_date clock (start_date t);
          due_date0 = clickup_timestamp_to_date clock (due_date t)
      in if start_date0 = None \<and> due_date0 = None then Inr None
         else
           case (if start_date0 = None \<and> due_date0 \<noteq> None
                 then map_sum id Some (dt_sub (the due_date0) (days 1))
                 else Inr start_date0) of
             Inl e \<Rightarrow> Inl e
           | Inr start_date1 \<Rightarrow>
               (case (if start_date1 \<noteq> None \<and> due_date0 = None
                      then map_sum id Some (dt_add (the start_date1) (days 1))
                      else Inr due_date0) of
                  Inl e \<Rightarrow> Inl e
                | Inr due_date1 \<Rightarrow>
                    Inr (Some \<lparr>cname = task_name_of t, cstart = the start_date1,
                               cend = the due_date1, cstatus = status_of t\<rparr>)))"

text \<open>The first loop: \<open>valid_tasks\<close> when it ends, or the error that stopped it.\<close>

fun collect_valid :: "clock \<Rightarrow> task list \<Rightarrow> py_error + chart_task list" where
  "collect_valid clock [] = Inr []"
| "collect_valid clock (t # ts) =
     (case resolve_task clock t of
        Inl e \<Rightarrow> Inl e
      | Inr None \<Rightarrow> collect_valid clock ts
      | Inr (Some ct) \<Rightarrow>
          (case collect_valid clock ts of
             Inl e \<Rightarrow> Inl e
           | Inr cts \<Rightarrow> Inr (ct # cts)))"

text \<open>
  What the function draws: one bar per entry (\<open>ax.barh(idx, duration, left=start,
  color=color)\<close> with its label), the limits of the time axis (\<open>ax.set_xlim\<close>) and the
  title. The image is these drawn on a figure.
\<close>

record bar =
  bar_idx :: nat
  bar_left :: datetime
  bar_width :: int
  bar_color :: string
  bar_label :: string

record chart =
  title :: string
  bars :: "bar list"
  xlim :: "datetime \<times> datetime"

text \<open>\<open>(end - start).days + 1\<close>: the days of a \<open>timedelta\<close> are rounded down.\<close>

definition duration :: "chart_task \<Rightarrow> int" where
  "duration ct = (cend ct - cstart ct) div 86400000000 + 1"

definition draw_bar :: "nat \<times> chart_task \<Rightarrow> bar" where
  "draw_bar p =
     (case p of (i, ct) \<Rightarrow>
        \<lparr>bar_idx = i, bar_left = cstart ct, bar_width = duration ct,
         bar_color = status_color (cstatus ct), bar_label = cname ct\<rparr>)"

text \<open>\<open>min\<close> and \<open>max\<close> of a sequence that is not empty.\<close>

definition py_min :: "int list \<Rightarrow> int" where
  "py_min xs = fold min (tl xs) (hd xs)"

definition py_max :: "int list \<Rightarrow> int" where
  "py_max xs = fold max (tl xs) (hd xs)"

text \<open>\<open>Inr None\<close> is the returned \<open>None\<close>, \<open>Inr (Some c)\<close> the image, \<open>Inl e\<close> an error
  that leaves the function.\<close>

definition generate_gantt_image :: "clock \<Rightarrow> task list \<Rightarrow> string \<Rightarrow> py_error + chart option" where
  "generate_gantt_image clock tasks project_name =
     (case collect_valid clock tasks of
        Inl e \<Rightarrow> Inl e
      | Inr valid_tasks0 \<Rightarrow>
          if valid_tasks0 = [] then Inr None
          else
            let valid_tasks = sort_key cstart valid_tasks0;
                min_date = py_min (map cstart valid_tasks);
                max_date = py_max (map cend valid_tasks)
            in case dt_sub min_date (days 7) of
                 Inl e \<Rightarrow> Inl e
               | Inr chart_start \<Rightarrow>
                   (case dt_add max_date (days 7) of
                      Inl e \<Rightarrow> Inl e
                    | Inr chart_end \<Rightarrow>
                        Inr (Some \<lparr>title = ''Diagrama de Gantt - '' @ project_name,
                                   bars = map draw_bar (enumerate 0 (rev valid_tasks)),
                                   xlim = (chart_start, chart_end)\<rparr>)))"

text \<open>A task neither of whose two timestamps decodes to a date.\<close>

definition undated :: "clock \<Rightarrow> task \<Rightarrow> bool" where
  "undated clock t =
     (clickup_timestamp_to_date clock (start_date t) = None \<and>
      clickup_timestamp_to_date clock (due_date t) = None)"

text \<open>
  A task whose decoded dates are all at least eight days inside the range of dates: the
  day added or taken by the resolution and the seven days of the axis margin then stay in
  range.
\<close>

definition away_from_limits :: "clock \<Rightarrow> task \<Rightarrow> bool" where
  "away_from_limits clock t =
     ((case clickup_timestamp_to_date clock (start_date t) of
         None \<Rightarrow> True
       | Some d \<Rightarrow> days 8 \<le> d \<and> d + days 8 \<le> dt_max)
      \<and> (case clickup_timestamp_to_date clock (due_date t) of
            None \<Rightarrow> True
          | Some d \<Rightarrow> days 8 \<le> d \<and> d + days 8 \<le> dt_max))"

section \<open>The remote systems\<close>

text \<open>
  A call of \<open>requests\<close> either raises or returns a response. Everything \<open>requests\<close>
  raises is a \<open>RequestException\<close>: a \<open>Timeout\<close>, a \<open>ConnectionError\<close> or another one. A
  response has a status code and a body; the body is given decoded, as the JSON object of
  the endpoint, and is read only when the status passes \<open>raise_for_status\<close>.
\<close>

datatype req_exc = Timeout | ConnectionError | OtherRequestException

datatype 'a outcome = Raises req_exc | Responds nat 'a

text \<open>
  An entry of a folder's \<open>lists\<close>, the configuration of the document system, an entry of
  an attachment listing, and the fields read from a page.
\<close>

record clist =
  list_id :: string
  list_name :: string

record confluence_config =
  conf_url :: string
  conf_user :: string
  conf_api_token :: string

record attachment =
  att_title :: string
  att_id :: string

record page_info =
  version_number :: int
  page_title :: string
  page_type :: string

text \<open>
  The calls made, in order: the log that every function below extends. A call to the
  task-tracking API carries the token, the identifier and the timeout; a page update
  carries the version number, title and type submitted, and the project name, time stamp
  and file name its body is written from.
\<close>

datatype call =
    GetFolder string string nat
  | GetListTasks string string nat
  | GetAttachments confluence_config "string option"
  | DeleteContent confluence_config string
  | PostAttachment confluence_config "string option" string chart
  | GetPage confluence_config "string option"
  | PutPage confluence_config "string option" int string string string string string

text \<open>
  The remote systems: for each endpoint, the outcome of a call given the calls made before
  it. A body of \<open>None\<close> is a JSON object without the key read (\<open>lists\<close>, \<open>tasks\<close>,
  \<open>results\<close>), for which \<open>.get\<close> gives the empty list. The answer to a delete is never
  read.
\<close>

record remote =
  folder_api :: "call list \<Rightarrow> string \<Rightarrow> string \<Rightarrow> nat \<Rightarrow> clist list option outcome"
  tasks_api :: "call list \<Rightarrow> string \<Rightarrow> string \<Rightarrow> nat \<Rightarrow> task list option outcome"
  attachments_api ::
    "call list \<Rightarrow> confluence_config \<Rightarrow> string option \<Rightarrow> attachment list option outcome"
  upload_api ::
    "call list \<Rightarrow> confluence_config \<Rightarrow> string option \<Rightarrow> string \<Rightarrow> chart \<Rightarrow> attachment list outcome"
  page_api :: "call list \<Rightarrow> confluence_config \<Rightarrow> string option \<Rightarrow> page_info outcome"
  update_api ::
    "call list \<Rightarrow> confluence_config \<Rightarrow> string option \<Rightarrow> int \<Rightarrow> string \<Rightarrow> string \<Rightarrow>
     string \<Rightarrow> string \<Rightarrow> string \<Rightarrow> unit outcome"

text \<open>\<open>response.raise_for_status()\<close> raises \<open>HTTPError\<close>, a \<open>RequestException\<close>, on a
  client or server error status.\<close>

definition raise_for_status :: "nat \<Rightarrow> bool" where
  "raise_for_status status_code = (400 \<le> status_code \<and> status_code < 600)"

section \<open>get_lists_from_folder and get_clickup_tasks\<close>

definition max_retries :: nat where
  "max_retries = 3"

text \<open>
  The loop \<open>for attempt in range(max_retries)\<close> over the attempts left. A response returns
  from the function; a timeout or a connection error returns \<open>None\<close> on the last attempt
  and goes on to the next one otherwise; any other exception returns \<open>None\<close>.
\<close>

fun folder_attempts ::
  "remote \<Rightarrow> string \<Rightarrow> string \<Rightarrow> nat list \<Rightarrow> call list \<Rightarrow> clist list option \<times> call list" where
  "folder_attempts env api_token folder_id [] h = (None, h)"
| "folder_attempts env api_token folder_id (attempt # rest) h =
     (let timeout = 15 + attempt * 5;
          h' = h @ [GetFolder api_token folder_id timeout]
      in case folder_api env h api_token folder_id timeout of
           Responds status_code body \<Rightarrow>
             if status_code = 404 then (None, h')
             else if status_code = 401 then (None, h')
             else if status_code = 403 then (None, h')
             else if raise_for_status status_code then (None, h')
             else (Some (case body of None \<Rightarrow> [] | Some ls \<Rightarrow> ls), h')
         | Raises Timeout \<Rightarrow>
             if attempt = max_retries - 1 then (None, h')
             else folder_attempts env api_token folder_id rest h'
         | Raises ConnectionError \<Rightarrow>
             if attempt = max_retries - 1 then (None, h')
             else folder_attempts env api_token folder_id rest h'
         | Raises OtherRequestException \<Rightarrow> (None, h'))"

definition get_lists_from_folder ::
  "remote \<Rightarrow> string \<Rightarrow> string \<Rightarrow> call list \<Rightarrow> clist list option \<times> call list" where
  "get_lists_from_folder env api_token folder_id h =
     folder_attempts env api_token folder_id [0 ..< max_retries] h"

fun tasks_attempts ::
  "remote \<Rightarrow> string \<Rightarrow> string \<Rightarrow> nat list \<Rightarrow> call list \<Rightarrow> task list option \<times> call list" where
  "tasks_attempts env api_token lid [] h = (None, h)"
| "tasks_attempts env api_token lid (attempt # rest) h =
     (let timeout = 15 + attempt * 5;
          h' = h @ [GetListTasks api_token lid timeout]
      in case tasks_api env h api_token lid timeout of
           Responds status_code body \<Rightarrow>
             if status_code = 404 then (None, h')
             else if status_code = 401 then (None, h')
             else if raise_for_status status_code then (None, h')
             else (Some (case body of None \<Rightarrow> [] | Some tasks \<Rightarrow> tasks), h')
         | Raises Timeout \<Rightarrow>
             if attempt = max_retries - 1 then (None, h')
             else tasks_attempts env api_token lid rest h'
         | Raises ConnectionError \<Rightarrow>
             if attempt = max_retries - 1 then (None, h')
             else tasks_attempts env api_token lid rest h'
         | Raises OtherRequestException \<Rightarrow> (None, h'))"

definition get_clickup_tasks ::
  "remote \<Rightarrow> string \<Rightarrow> string \<Rightarrow> call list \<Rightarrow> task list option \<times> call list" where
  "get_clickup_tasks env api_token lid h =
     tasks_attempts env api_token lid [0 ..< max_retries] h"

section \<open>get_all_tasks_from_source\<close>

text \<open>The loop over the lists of a folder: \<open>if tasks: all_tasks.extend(tasks)\<close>.\<close>

fun folder_tasks ::
  "remote \<Rightarrow> string \<Rightarrow> clist list \<Rightarrow> task list \<Rightarrow> call list \<Rightarrow> task list \<times> call list" where
  "folder_tasks env api_token [] all_tasks h = (all_tasks, h)"
| "folder_tasks env api_token (list_item # rest) all_tasks h =
     (case get_clickup_tasks env api_token (list_id list_item) h of
        (tasks, h') \<Rightarrow>
          if tasks \<noteq> None \<and> tasks \<noteq> Some []
          then folder_tasks env api_token rest (all_tasks @ the tasks) h'
          else folder_tasks env api_token rest all_tasks h')"

definition get_all_tasks_from_source ::
  "remote \<Rightarrow> string \<Rightarrow> string \<Rightarrow> string \<Rightarrow> call list \<Rightarrow> task list option \<times> call list" where
  "get_all_tasks_from_source env api_token source_id source_type h =
     (if source_type = ''folder''
      then case get_lists_from_folder env api_token source_id h of
             (lsts, h1) \<Rightarrow>
               if lsts = None \<or> lsts = Some [] then (None, h1)
               else case folder_tasks env api_token (the lsts) [] h1 of
                      (all_tasks, h2) \<Rightarrow>
                        if all_tasks = [] then (None, h2) else (Some all_tasks, h2)
      else case get_clickup_tasks env api_token source_id h of
             (tasks, h1) \<Rightarrow>
               let all_tasks = (if tasks \<noteq> None \<and> tasks \<noteq> Some [] then the tasks else [])
               in if all_tasks = [] then (None, h1) else (Some all_tasks, h1))"

section \<open>upload_attachment_to_confluence\<close>

text \<open>
  The first \<open>try\<close> lists the attachments and deletes the first one with the file name;
  its bare \<open>except\<close> passes over every error. The upload returns the identifier of the
  first result, \<open>None\<close> on a \<open>RequestException\<close>, and raises \<open>IndexError\<close> when the
  response has no result.
\<close>

definition upload_attachment_to_confluence ::
  "remote \<Rightarrow> confluence_config \<Rightarrow> string option \<Rightarrow> chart \<Rightarrow> string \<Rightarrow> call list \<Rightarrow>
   (py_error + string option) \<times> call list" where
  "upload_attachment_to_confluence env confluence page_id image_buffer filename h =
     (let h1 = h @ [GetAttachments confluence page_id];
          h2 = (case attachments_api env h confluence page_id of
                  Raises e \<Rightarrow> h1
                | Responds status_code body \<Rightarrow>
                    if raise_for_status status_code then h1
                    else case find (\<lambda>att. att_title att = filename)
                                (case body of None \<Rightarrow> [] | Some results \<Rightarrow> results) of
                           None \<Rightarrow> h1
                         | Some att \<Rightarrow> h1 @ [DeleteContent confluence (att_id att)]);
          h3 = h2 @ [PostAttachment confluence page_id filename image_buffer]
      in case upload_api env h2 confluence page_id filename image_buffer of
           Raises e \<Rightarrow> (Inr None, h3)
         | Responds status_code results \<Rightarrow>
             if raise_for_status status_code then (Inr None, h3)
             else case results of
                    [] \<Rightarrow> (Inl IndexError, h3)
                  | att # rest \<Rightarrow> (Inr (Some (att_id att)), h3))"

section \<open>update_confluence_with_image\<close>

text \<open>\<open>timestamp\<close> is \<open>datetime.now()\<close> as formatted for the page body.\<close>

definition update_confluence_with_image ::
  "remote \<Rightarrow> string \<Rightarrow> confluence_config \<Rightarrow> string option \<Rightarrow> string \<Rightarrow> string \<Rightarrow> string \<Rightarrow>
   call list \<Rightarrow> bool \<times> call list" where
  "update_confluence_with_image env timestamp confluence page_id attachment_id filename
     project_name h =
     (let h1 = h @ [GetPage confluence page_id]
      in case page_api env h confluence page_id of
           Raises e \<Rightarrow> (False, h1)
         | Responds status_code info \<Rightarrow>
             if raise_for_status status_code then (False, h1)
             else
               let current_version = version_number info;
                   h2 = h1 @ [PutPage confluence page_id (current_version + 1) (page_title info)
                                (page_type info) project_name timestamp filename]
               in case update_api env h1 confluence page_id (current_version + 1)
                         (page_title info) (page_type info) project_name timestamp filename of
                    Raises e \<Rightarrow> (False, h2)
                  | Responds status_code2 u \<Rightarrow>
                      if raise_for_status status_code2 then (False, h2) else (True, h2))"

section \<open>process_mapping and the main program\<close>

record mapping =
  mapping_name :: "string option"
  confluence_page_id :: "string option"
  clickup_list_id :: "string option"
  clickup_folder_id :: "string option"

record config =
  confluence :: confluence_config
  clickup_api_token :: string
  mappings :: "mapping list"

text \<open>The file name: \<open>project_name.lower().replace(' ', '-')\<close> between \<open>gantt-\<close> and
  the date \<open>today\<close> (\<open>datetime.now()\<close> as \<open>%Y%m%d\<close>).\<close>

definition lower_char :: "char \<Rightarrow> char" where
  "lower_char c =
     (case map_of (zip ascii_uppercase ascii_lowercase) c of None \<Rightarrow> c | Some l \<Rightarrow> l)"

definition image_filename :: "string \<Rightarrow> string \<Rightarrow> string" where
  "image_filename project_name today =
     ''gantt-'' @ map (\<lambda>c. if c = CHR '' '' then CHR ''-'' else c) (map lower_char project_name)
       @ ''-'' @ today @ ''.png''"

text \<open>The source of a mapping: its list when it has one, else its folder.\<close>

definition mapping_source :: "mapping \<Rightarrow> (string \<times> string) option" where
  "mapping_source m =
     (if clickup_list_id m \<noteq> None \<and> clickup_list_id m \<noteq> Some []
      then Some (the (clickup_list_id m), ''list'')
      else if clickup_folder_id m \<noteq> None \<and> clickup_folder_id m \<noteq> Some []
      then Some (the (clickup_folder_id m), ''folder'')
      else None)"

text \<open>
  \<open>Inr True\<close> and \<open>Inr False\<close> are the returned verdicts; \<open>Inl e\<close> is an error that
  leaves the function.
\<close>

definition project_name_of :: "mapping \<Rightarrow> string" where
  "project_name_of m = (case mapping_name m of None \<Rightarrow> ''ClickUp'' | Some n \<Rightarrow> n)"

definition process_mapping ::
  "remote \<Rightarrow> clock \<Rightarrow> string \<Rightarrow> string \<Rightarrow> config \<Rightarrow> mapping \<Rightarrow> call list \<Rightarrow>
   (py_error + bool) \<times> call list" where
  "process_mapping env clock today timestamp cfg m h =
     (let project_name = project_name_of m;
          page_id = confluence_page_id m
      in case mapping_source m of
           None \<Rightarrow> (Inr False, h)
         | Some (source_id, source_type) \<Rightarrow>
             (case get_all_tasks_from_source env (clickup_api_token cfg) source_id source_type h of
                (None, h1) \<Rightarrow> (Inr False, h1)
              | (Some tasks, h1) \<Rightarrow>
                  (case generate_gantt_image clock tasks project_name of
                     Inl e \<Rightarrow> (Inl e, h1)
                   | Inr None \<Rightarrow> (Inr False, h1)
                   | Inr (Some image_buffer) \<Rightarrow>
                       let filename = image_filename project_name today
                       in case upload_attachment_to_confluence env (confluence cfg) page_id
                                 image_buffer filename h1 of
                            (Inl e, h2) \<Rightarrow> (Inl e, h2)
                          | (Inr None, h2) \<Rightarrow> (Inr False, h2)
                          | (Inr (Some attachment_id), h2) \<Rightarrow>
                              if attachment_id = [] then (Inr False, h2)
                              else case update_confluence_with_image env timestamp
                                          (confluence cfg) page_id attachment_id filename
                                          project_name h2 of
                                     (success, h3) \<Rightarrow> (Inr success, h3))))"

text \<open>The loop of the main program, which appends one verdict per mapping; an error
  that leaves \<open>process_mapping\<close> leaves the loop.\<close>

fun run_mappings ::
  "remote \<Rightarrow> clock \<Rightarrow> string \<Rightarrow> string \<Rightarrow> config \<Rightarrow> mapping list \<Rightarrow> bool list \<Rightarrow> call list \<Rightarrow>
   (py_error + bool list) \<times> call list" where
  "run_mappings env clock today timestamp cfg [] results h = (Inr results, h)"
| "run_mappings env clock today timestamp cfg (m # rest) results h =
     (case process_mapping env clock today timestamp cfg m h of
        (Inl e, h') \<Rightarrow> (Inl e, h')
      | (Inr success, h') \<Rightarrow>
          run_mappings env clock today timestamp cfg rest (results @ [success]) h')"

text \<open>
  \<open>load_config\<close> either ends the process (\<open>sys.exit(1)\<close>) or returns a configuration.
  The result of the main program is the exit code of the process: that of \<open>sys.exit\<close>,
  or 1 when an error leaves the program.
\<close>

datatype load_result = Exited | Loaded config

definition main ::
  "remote \<Rightarrow> clock \<Rightarrow> string \<Rightarrow> string \<Rightarrow> load_result \<Rightarrow> call list \<Rightarrow> nat \<times> call list" where
  "main env clock today timestamp loaded h =
     (case loaded of
        Exited \<Rightarrow> (1, h)
      | Loaded cfg \<Rightarrow>
          if mappings cfg = [] then (1, h)
          else case run_mappings env clock today timestamp cfg (mappings cfg) [] h of
                 (Inl e, h') \<Rightarrow> (1, h')
               | (Inr results, h') \<Rightarrow>
                   let successful = length (filter (\<lambda>r. r) results);
                       failed = length results - successful
                   in (if failed = 0 then 0 else 1, h'))"

section \<open>Vocabulary of the properties\<close>

text \<open>
  The first \<open>k\<close> calls of a fetch, with the timeouts 15, 20, 25, ...; the reply the
  remote system gives to attempt \<open>k\<close> (from 0) after the attempts before it; the replies
  that are tried again; and what a final reply gives the caller.
\<close>

definition folder_calls :: "string \<Rightarrow> string \<Rightarrow> nat \<Rightarrow> call list" where
  "folder_calls api_token folder_id k =
     map (\<lambda>attempt. GetFolder api_token folder_id (15 + attempt * 5)) [0 ..< k]"

definition folder_reply ::
  "remote \<Rightarrow> call list \<Rightarrow> string \<Rightarrow> string \<Rightarrow> nat \<Rightarrow> clist list option outcome" where
  "folder_reply env h api_token folder_id k =
     folder_api env (h @ folder_calls api_token folder_id k) api_token folder_id (15 + k * 5)"

definition tasks_calls :: "string \<Rightarrow> string \<Rightarrow> nat \<Rightarrow> call list" where
  "tasks_calls api_token lid k =
     map (\<lambda>attempt. GetListTasks api_token lid (15 + attempt * 5)) [0 ..< k]"

definition tasks_reply ::
  "remote \<Rightarrow> call list \<Rightarrow> string \<Rightarrow> string \<Rightarrow> nat \<Rightarrow> task list option outcome" where
  "tasks_reply env h api_token lid k =
     tasks_api env (h @ tasks_calls api_token lid k) api_token lid (15 + k * 5)"

definition retryable :: "'a outcome \<Rightarrow> bool" where
  "retryable r = (r = Raises Timeout \<or> r = Raises ConnectionError)"

definition verdict :: "'a list option outcome \<Rightarrow> 'a list option" where
  "verdict r =
     (case r of
        Raises e \<Rightarrow> None
      | Responds status_code body \<Rightarrow>
          if raise_for_status status_code then None
          else Some (case body of None \<Rightarrow> [] | Some xs \<Rightarrow> xs))"

text \<open>The fetches of the lists of a folder, one after the other: what each returns.\<close>

definition tasks_of :: "task list option \<Rightarrow> task list" where
  "tasks_of r = (case r of None \<Rightarrow> [] | Some ts \<Rightarrow> ts)"

fun fetch_each ::
  "remote \<Rightarrow> string \<Rightarrow> clist list \<Rightarrow> call list \<Rightarrow> task list option list \<times> call list" where
  "fetch_each env api_token [] h = ([], h)"
| "fetch_each env api_token (list_item # rest) h =
     (case get_clickup_tasks env api_token (list_id list_item) h of
        (r, h') \<Rightarrow>
          (case fetch_each env api_token rest h' of
             (rs, h'') \<Rightarrow> (r # rs, h'')))"

section \<open>Example tasks\<close>

text \<open>
  The scenario of the specification, with day 0 at the timestamp 1700000000000: task A
  starts on day 0 and is due on day 2, task B is due on day 5 and has no start, task C
  has no date. Two more tasks lie at the end of the year 9999: one that only starts in
  its last day, and one that is due in its last week.
\<close>

definition task_A :: task where
  "task_A = \<lparr>name = Some ''A'', start_date = JStr ''1700000000000'',
             due_date = JStr ''1700172800000'', status = Some (Some ''in progress'')\<rparr>"

definition task_B :: task where
  "task_B = \<lparr>name = Some ''B'', start_date = JNull,
             due_date = JStr ''1700432000000'', status = Some (Some ''Done'')\<rparr>"

definition task_C :: task where
  "task_C = \<lparr>name = Some ''C'', start_date = JNull, due_date = JNull, status = None\<rparr>"

definition task_last_day :: task where
  "task_last_day = \<lparr>name = Some ''L'', start_date = JStr ''253402300799000'',
                    due_date = JNull, status = None\<rparr>"

definition task_last_week :: task where
  "task_last_week = \<lparr>name = Some ''W'', start_date = JStr ''253400000000000'',
                     due_date = JStr ''253402000000000'', status = None\<rparr>"

text \<open>
  A remote system for the examples. Folder \<open>F\<close> answers with two lists after two
  timeouts; list \<open>L1\<close> has the three tasks of the scenario, list \<open>L2\<close> always times out,
  list \<open>L9\<close> has the task of the last day of 9999; any other identifier is not found.
  The document system accepts everything; the page is at version 7.
\<close>

definition list_L1 :: clist where
  "list_L1 = \<lparr>list_id = ''L1'', list_name = ''Sprint 1''\<rparr>"

definition list_L2 :: clist where
  "list_L2 = \<lparr>list_id = ''L2'', list_name = ''Sprint 2''\<rparr>"

definition example_remote :: remote where
  "example_remote =
     \<lparr>folder_api = (\<lambda>h api_token folder_id timeout.
          if folder_id = ''F''
          then if length h < 2 then Raises Timeout
               else Responds 200 (Some [list_L1, list_L2])
          else Responds 404 None),
      tasks_api = (\<lambda>h api_token lid timeout.
          if lid = ''L1'' then Responds 200 (Some [task_A, task_B, task_C])
          else if lid = ''L2'' then Raises Timeout
          else if lid = ''L9'' then Responds 200 (Some [task_last_day])
          else Responds 404 None),
      attachments_api = (\<lambda>h confluence page_id.
          Responds 200 (Some [\<lparr>att_title = ''old.png'', att_id = ''a0''\<rparr>])),
      upload_api = (\<lambda>h confluence page_id filename image_buffer.
          Responds 200 [\<lparr>att_title = filename, att_id = ''a1''\<rparr>]),
      page_api = (\<lambda>h confluence page_id.
          Responds 200 \<lparr>version_number = 7, page_title = ''Plan'', page_type = ''page''\<rparr>),
      update_api = (\<lambda>h confluence page_id version t ty project_name timestamp filename.
          Responds 200 ())\<rparr>"

definition example_confluence :: confluence_config where
  "example_confluence =
     \<lparr>conf_url = ''https://wiki.example'', conf_user = ''bot'', conf_api_token = ''s''\<rparr>"

text \<open>
  Three mappings for the examples, each with a list as its source: one whose list has the
  tasks of the scenario, one whose list is not found, and one whose list has the task of
  the last day of 9999; and a configuration with given mappings.
\<close>

definition mapping_ok :: mapping where
  "mapping_ok =
     \<lparr>mapping_name = Some ''P'', confluence_page_id = Some ''42'',
      clickup_list_id = Some ''L1'', clickup_folder_id = None\<rparr>"

definition mapping_missing :: mapping where
  "mapping_missing =
     \<lparr>mapping_name = Some ''Q'', confluence_page_id = Some ''43'',
      clickup_list_id = Some ''LX'', clickup_folder_id = None\<rparr>"

definition mapping_overflow :: mapping where
  "mapping_overflow =
     \<lparr>mapping_name = Some ''R'', confluence_page_id = Some ''44'',
      clickup_list_id = Some ''L9'', clickup_folder_id = None\<rparr>"

definition example_config :: "mapping list \<Rightarrow> config" where
  "example_config ms =
     \<lparr>confluence = example_confluence, clickup_api_token = ''k'', mappings = ms\<rparr>"

section \<open>Properties\<close>

subsection \<open>Status colours\<close>

lemma str_in_sublist: "str_in key s = sublist key s"
  by (induction s) (auto simp: sublist_Cons_right)

lemma pick_color_find:
  "pick_color tbl label dflt =
     (case find (\<lambda>(key, col). sublist key label) tbl of
        None \<Rightarrow> dflt
      | Some (key, col) \<Rightarrow> col)"
  by (induction tbl label dflt rule: pick_color.induct) (simp_all add: str_in_sublist)

lemma upper_char_idem: "upper_char (upper_char c) = upper_char c"
  by (simp add: upper_char_def ascii_lowercase_def ascii_uppercase_def)

lemma upper_idem: "upper (upper s) = upper s"
  by (simp add: upper_def upper_char_idem)

lemmas color_eval =
  status_color_def status_colors_def upper_def upper_char_def
  ascii_lowercase_def ascii_uppercase_def

lemma color_COMPLETED: "status_color ''COMPLETED'' = ''#8dd879''"
  by (simp add: color_eval)

lemma color_complete: "status_color ''complete'' = ''#8dd879''"
  by (simp add: color_eval)

lemma color_unknown: "status_color ''Blocked'' = ''#e0e0e0''"
  by (simp add: color_eval)

text \<open>
  Claim C6. The colour of a status label is the colour of the first entry of the table, in
  table order, whose key occurs as a substring of the upper-cased label, and light gray
  (\<open>#e0e0e0\<close>) when no key occurs; the test does not depend on the case of the label;
  \<open>COMPLETED\<close> and \<open>complete\<close> both get the green of the done family, and the label
  \<open>Blocked\<close>, which no key matches, gets light gray.
\<close>

theorem C6_status_color_first_match:
  "status_color s =
     (case find (\<lambda>(key, col). sublist key (upper s)) status_colors of
        None \<Rightarrow> ''#e0e0e0''
      | Some (key, col) \<Rightarrow> col)
   \<and> status_color (upper s) = status_color s
   \<and> status_color ''COMPLETED'' = ''#8dd879''
   \<and> status_color ''complete'' = ''#8dd879''
   \<and> find (\<lambda>(key, col). sublist key (upper ''Blocked'')) status_colors = None
   \<and> status_color ''Blocked'' = ''#e0e0e0''"
proof -
  have first: "status_color s =
     (case find (\<lambda>(key, col). sublist key (upper s)) status_colors of
        None \<Rightarrow> ''#e0e0e0''
      | Some (key, col) \<Rightarrow> col)"
    unfolding status_color_def by (rule pick_color_find)
  have nocase: "status_color (upper s) = status_color s"
    by (simp add: status_color_def upper_idem)
  have none: "find (\<lambda>(key, col). sublist key (upper ''Blocked'')) status_colors = None"
    by (simp add: color_eval flip: str_in_sublist)
  show ?thesis
    using first nocase none color_COMPLETED color_complete color_unknown by simp
qed

subsection \<open>Evaluation of the decoder on literals\<close>

lemmas str_eval =
  int_of_str_def strip_sign_def py_isspace_def is_digit_def digit_value_def digits_to_int_def

lemmas date_eval =
  clickup_timestamp_to_date_def timestamp_body_def fromtimestamp_def utc_clock_def
  days_def dt_max_def dt_add_def dt_sub_def

subsection \<open>Date resolution\<close>

lemma decode_in_range:
  "clickup_timestamp_to_date clock ts = Some d \<Longrightarrow> 0 \<le> d \<and> d \<le> dt_max"
  by (auto simp: clickup_timestamp_to_date_def timestamp_body_def fromtimestamp_def
           split: if_splits sum.splits option.splits)

lemma dt_add_Inr: "dt_add d x = Inr r \<Longrightarrow> r = d + x \<and> 0 \<le> r \<and> r \<le> dt_max"
  by (auto simp: dt_add_def split: if_splits)

lemma dt_add_Inl: "dt_add d x = Inl e \<Longrightarrow> e = OverflowError"
  by (auto simp: dt_add_def split: if_splits)

lemma resolve_task_table:
  "resolve_task clock t =
     (case (clickup_timestamp_to_date clock (start_date t),
            clickup_timestamp_to_date clock (due_date t)) of
        (Some s, Some d) \<Rightarrow>
          Inr (Some \<lparr>cname = task_name_of t, cstart = s, cend = d, cstatus = status_of t\<rparr>)
      | (None, Some d) \<Rightarrow>
          if days 1 \<le> d
          then Inr (Some \<lparr>cname = task_name_of t, cstart = d - days 1, cend = d,
                          cstatus = status_of t\<rparr>)
          else Inl OverflowError
      | (Some s, None) \<Rightarrow>
          if s + days 1 \<le> dt_max
          then Inr (Some \<lparr>cname = task_name_of t, cstart = s, cend = s + days 1,
                          cstatus = status_of t\<rparr>)
          else Inl OverflowError
      | (None, None) \<Rightarrow> Inr None)"
proof (cases "clickup_timestamp_to_date clock (start_date t)")
  case None
  note s = None
  show ?thesis
  proof (cases "clickup_timestamp_to_date clock (due_date t)")
    case None
    with s show ?thesis by (simp add: resolve_task_def)
  next
    case (Some d)
    with decode_in_range [OF Some] s show ?thesis
      by (simp add: resolve_task_def dt_sub_def dt_add_def days_def)
  qed
next
  case (Some s0)
  note s = Some
  show ?thesis
  proof (cases "clickup_timestamp_to_date clock (due_date t)")
    case None
    with decode_in_range [OF s] s show ?thesis
      by (simp add: resolve_task_def dt_add_def days_def)
  next
    case (Some d)
    with s show ?thesis by (simp add: resolve_task_def)
  qed
qed

lemma resolve_None_iff: "resolve_task clock t = Inr None \<longleftrightarrow> undated clock t"
  by (auto simp: resolve_task_table undated_def split: option.splits if_splits)

lemma resolve_Some_dated: "resolve_task clock t = Inr (Some ct) \<Longrightarrow> \<not> undated clock t"
  by (auto simp: resolve_task_table undated_def split: option.splits if_splits)

lemma resolve_Inl: "resolve_task clock t = Inl e \<Longrightarrow> e = OverflowError \<and> \<not> undated clock t"
  by (auto simp: resolve_task_table undated_def split: option.splits if_splits)

lemma resolve_in_range:
  "resolve_task clock t = Inr (Some ct) \<Longrightarrow>
     0 \<le> cstart ct \<and> cstart ct \<le> dt_max \<and> 0 \<le> cend ct \<and> cend ct \<le> dt_max"
  by (auto simp: resolve_task_table days_def split: option.splits if_splits
           dest!: decode_in_range)

lemma collect_length:
  "collect_valid clock ts = Inr vs \<Longrightarrow>
     length vs = length ts - length (filter (undated clock) ts)"
proof (induction ts arbitrary: vs)
  case Nil
  then show ?case by simp
next
  case (Cons t ts)
  have le: "length (filter (undated clock) ts) \<le> length ts" by simp
  from Cons.prems show ?case
    using Cons.IH le
    by (auto split: sum.splits option.splits simp: resolve_None_iff Suc_diff_le
             dest!: resolve_Some_dated)
qed

lemma collect_empty_iff:
  "collect_valid clock ts = Inr [] \<longleftrightarrow> (\<forall>t \<in> set ts. undated clock t)"
  by (induction ts) (auto split: sum.splits option.splits simp: resolve_None_iff dest: resolve_Some_dated resolve_Inl)

lemma collect_Inl: "collect_valid clock ts = Inl e \<Longrightarrow> e = OverflowError"
  by (induction ts) (auto split: sum.splits option.splits dest: resolve_Inl)

lemma collect_in_range:
  "collect_valid clock ts = Inr vs \<Longrightarrow> v \<in> set vs \<Longrightarrow>
     0 \<le> cstart v \<and> cstart v \<le> dt_max \<and> 0 \<le> cend v \<and> cend v \<le> dt_max"
proof (induction ts arbitrary: vs)
  case Nil
  then show ?case by simp
next
  case (Cons t ts)
  from Cons.prems Cons.IH show ?case
    by (auto split: sum.splits option.splits dest: resolve_in_range)
qed

lemma py_min_Min: "xs \<noteq> [] \<Longrightarrow> py_min xs = Min (set xs)"
proof (cases xs)
  case Nil
  assume "xs \<noteq> []"
  with Nil show ?thesis by simp
next
  case (Cons a as)
  then show ?thesis using Min.set_eq_fold [of a as] by (simp add: py_min_def)
qed

lemma py_max_Max: "xs \<noteq> [] \<Longrightarrow> py_max xs = Max (set xs)"
proof (cases xs)
  case Nil
  assume "xs \<noteq> []"
  with Nil show ?thesis by simp
next
  case (Cons a as)
  then show ?thesis using Max.set_eq_fold [of a as] by (simp add: py_max_def)
qed

text \<open>
  Claim C1, as the code has it. For every task record: when both timestamps decode, the
  start and the end of the chart task are the two decoded dates; when only the due
  timestamp decodes, the start is the due date minus one day and the end is the due date,
  provided the due date is at least one day after the least date; when only the start
  timestamp decodes, the start is that date and the end is one day later, provided that
  day is not after the greatest date (9999-12-31 23:59:59.999999); a record neither of
  whose timestamps decodes is dropped. Where a proviso fails the date arithmetic raises
  \<open>OverflowError\<close>, and no chart task is made.
\<close>

theorem C1_date_resolution:
  "resolve_task clock t =
     (case (clickup_timestamp_to_date clock (start_date t),
            clickup_timestamp_to_date clock (due_date t)) of
        (Some s, Some d) \<Rightarrow>
          Inr (Some \<lparr>cname = task_name_of t, cstart = s, cend = d, cstatus = status_of t\<rparr>)
      | (None, Some d) \<Rightarrow>
          if days 1 \<le> d
          then Inr (Some \<lparr>cname = task_name_of t, cstart = d - days 1, cend = d,
                          cstatus = status_of t\<rparr>)
          else Inl OverflowError
      | (Some s, None) \<Rightarrow>
          if s + days 1 \<le> dt_max
          then Inr (Some \<lparr>cname = task_name_of t, cstart = s, cend = s + days 1,
                          cstatus = status_of t\<rparr>)
          else Inl OverflowError
      | (None, None) \<Rightarrow> Inr None)"
  by (rule resolve_task_table)

text \<open>
  The claim as the specification words it, for every task record, fails on a record whose
  only timestamp is a start in the last day of the year 9999: on a machine on UTC the
  timestamp 253402300799000 decodes to 9999-12-31 23:59:59, one day later is no date, and
  the addition raises.
\<close>

theorem C1_counterexample:
  "clickup_timestamp_to_date utc_clock (JStr ''253402300799000'') = Some 315537897599000000
   \<and> clickup_timestamp_to_date utc_clock JNull = None
   \<and> resolve_task utc_clock
       \<lparr>name = Some ''A'', start_date = JStr ''253402300799000'', due_date = JNull,
        status = None\<rparr> = Inl OverflowError"
  by (simp add: resolve_task_def date_eval str_eval)

subsection \<open>The timestamp decoder\<close>

lemma decode_cases:
  "(\<exists>d. clickup_timestamp_to_date clock ts = Some d \<and> truthy ts
        \<and> timestamp_body clock ts = Inr d)
   \<or> (clickup_timestamp_to_date clock ts = None
        \<and> (\<not> truthy ts \<or> (\<exists>e. timestamp_body clock ts = Inl e)))"
  by (cases "timestamp_body clock ts") (auto simp: clickup_timestamp_to_date_def)

lemma decode_non_numeric:
  "py_int ts = Inl e \<Longrightarrow> clickup_timestamp_to_date clock ts = None"
  by (simp add: clickup_timestamp_to_date_def timestamp_body_def)

lemma decode_JNull: "clickup_timestamp_to_date clock JNull = None"
  by (simp add: clickup_timestamp_to_date_def)

lemma resolve_start_malformed:
  assumes "clickup_timestamp_to_date clock (start_date t) = None"
  shows "resolve_task clock t = resolve_task clock (t\<lparr>start_date := JNull\<rparr>)"
proof -
  have n: "task_name_of (t\<lparr>start_date := JNull\<rparr>) = task_name_of t"
    "status_of (t\<lparr>start_date := JNull\<rparr>) = status_of t"
    by (simp_all add: task_name_of_def status_of_def)
  show ?thesis
    unfolding resolve_task_def n by (simp add: decode_JNull assms)
qed

lemma resolve_due_malformed:
  assumes "clickup_timestamp_to_date clock (due_date t) = None"
  shows "resolve_task clock t = resolve_task clock (t\<lparr>due_date := JNull\<rparr>)"
proof -
  have n: "task_name_of (t\<lparr>due_date := JNull\<rparr>) = task_name_of t"
    "status_of (t\<lparr>due_date := JNull\<rparr>) = status_of t"
    by (simp_all add: task_name_of_def status_of_def)
  show ?thesis
    unfolding resolve_task_def n by (simp add: decode_JNull assms)
qed

text \<open>
  Claim C10. The decoder returns a date or \<open>None\<close> on every value and raises nothing:
  it returns the date of the body of its \<open>try\<close> when the value is truthy and the body
  gives one, and \<open>None\<close> when the value is falsy or the body raises, whatever the error.
  A missing timestamp (\<open>None\<close>), an empty one and one that \<open>int\<close> rejects, such as
  \<open>abc\<close>, give \<open>None\<close>. A task whose start (or due) timestamp does not decode is
  resolved exactly as the same task with that timestamp missing, and a task neither of
  whose timestamps decodes is dropped.
\<close>

theorem C10_decoder_total:
  "((\<exists>d. clickup_timestamp_to_date clock ts = Some d \<and> truthy ts
         \<and> timestamp_body clock ts = Inr d)
    \<or> (clickup_timestamp_to_date clock ts = None
         \<and> (\<not> truthy ts \<or> (\<exists>e. timestamp_body clock ts = Inl e))))
   \<and> clickup_timestamp_to_date clock JNull = None
   \<and> clickup_timestamp_to_date clock (JStr []) = None
   \<and> (\<forall>e. py_int ts = Inl e \<longrightarrow> clickup_timestamp_to_date clock ts = None)
   \<and> py_int (JStr ''abc'') = Inl ValueError
   \<and> (clickup_timestamp_to_date clock (start_date t) = None \<longrightarrow>
        resolve_task clock t = resolve_task clock (t\<lparr>start_date := JNull\<rparr>))
   \<and> (clickup_timestamp_to_date clock (due_date t) = None \<longrightarrow>
        resolve_task clock t = resolve_task clock (t\<lparr>due_date := JNull\<rparr>))
   \<and> (clickup_timestamp_to_date clock (start_date t) = None
        \<and> clickup_timestamp_to_date clock (due_date t) = None \<longrightarrow>
        resolve_task clock t = Inr None \<and> collect_valid clock [t] = Inr [])"
proof -
  have a: "clickup_timestamp_to_date clock JNull = None"
    by (simp add: clickup_timestamp_to_date_def)
  have b: "clickup_timestamp_to_date clock (JStr []) = None"
    by (simp add: clickup_timestamp_to_date_def)
  have c: "py_int (JStr ''abc'') = Inl ValueError"
    by (simp add: str_eval)
  have d: "clickup_timestamp_to_date clock (start_date t) = None
        \<and> clickup_timestamp_to_date clock (due_date t) = None \<longrightarrow>
        resolve_task clock t = Inr None \<and> collect_valid clock [t] = Inr []"
    by (simp add: resolve_task_def)
  show ?thesis
    using decode_cases [of clock ts] a b c d decode_non_numeric [of ts _ clock]
      resolve_start_malformed [of clock t] resolve_due_malformed [of clock t]
    by blast
qed

theorem C10_witness:
  "clickup_timestamp_to_date utc_clock (JStr ''abc'') = None
   \<and> resolve_task utc_clock
       \<lparr>name = Some ''A'', start_date = JStr ''abc'', due_date = JArr [JInt 5],
        status = None\<rparr> = Inr None"
proof -
  let ?t = "\<lparr>name = Some ''A'', start_date = JStr ''abc'', due_date = JArr [JInt 5],
             status = None\<rparr>"
  have s: "py_int (JStr ''abc'') = Inl ValueError" by (simp add: str_eval)
  have d: "py_int (JArr [JInt 5]) = Inl TypeError" by simp
  from C10_decoder_total [of utc_clock "JStr ''abc''" ?t] s
  have 1: "clickup_timestamp_to_date utc_clock (JStr ''abc'') = None" by blast
  from C10_decoder_total [of utc_clock "JArr [JInt 5]" ?t] d
  have 2: "clickup_timestamp_to_date utc_clock (JArr [JInt 5]) = None" by blast
  have sel: "start_date ?t = JStr ''abc''" "due_date ?t = JArr [JInt 5]" by simp_all
  from C10_decoder_total [of utc_clock "JStr ''abc''" ?t]
  have "clickup_timestamp_to_date utc_clock (start_date ?t) = None
        \<and> clickup_timestamp_to_date utc_clock (due_date ?t) = None \<longrightarrow>
        resolve_task utc_clock ?t = Inr None"
    by blast
  then have "resolve_task utc_clock ?t = Inr None"
    unfolding sel using 1 2 by blast
  with 1 show ?thesis by blast
qed

subsection \<open>The renderer\<close>

lemma collect_nonempty_set:
  "collect_valid clock ts = Inr vs \<Longrightarrow> vs \<noteq> [] \<Longrightarrow>
     0 \<le> Min (cstart ` set vs) \<and> Min (cstart ` set vs) \<le> dt_max
     \<and> 0 \<le> Max (cend ` set vs) \<and> Max (cend ` set vs) \<le> dt_max"
proof -
  assume c: "collect_valid clock ts = Inr vs" and ne: "vs \<noteq> []"
  have fin: "finite (cstart ` set vs)" "finite (cend ` set vs)" by simp_all
  from ne have nes: "cstart ` set vs \<noteq> {}" "cend ` set vs \<noteq> {}" by simp_all
  from Min_in [OF fin(1) nes(1)] obtain v where v: "v \<in> set vs" "Min (cstart ` set vs) = cstart v"
    by auto
  from Max_in [OF fin(2) nes(2)] obtain w where w: "w \<in> set vs" "Max (cend ` set vs) = cend w"
    by auto
  from collect_in_range [OF c v(1)] collect_in_range [OF c w(1)] v(2) w(2)
  show ?thesis by simp
qed

lemma generate_table:
  "generate_gantt_image clock tasks pn =
     (case collect_valid clock tasks of
        Inl e \<Rightarrow> Inl e
      | Inr vs \<Rightarrow>
          if vs = [] then Inr None
          else if days 7 \<le> Min (cstart ` set vs) \<and> Max (cend ` set vs) + days 7 \<le> dt_max
          then Inr (Some \<lparr>title = ''Diagrama de Gantt - '' @ pn,
                          bars = map draw_bar (enumerate 0 (rev (sort_key cstart vs))),
                          xlim = (Min (cstart ` set vs) - days 7,
                                  Max (cend ` set vs) + days 7)\<rparr>)
          else Inl OverflowError)"
proof (cases "collect_valid clock tasks")
  case (Inl e)
  then show ?thesis by (simp add: generate_gantt_image_def)
next
  case (Inr vs)
  show ?thesis
  proof (cases "vs = []")
    case True
    with Inr show ?thesis by (simp add: generate_gantt_image_def)
  next
    case False
    then have ne: "sort_key cstart vs \<noteq> []"
      by (metis length_sort length_0_conv)
    have mn: "py_min (map cstart (sort_key cstart vs)) = Min (cstart ` set vs)"
      using ne by (simp add: py_min_Min)
    have mx: "py_max (map cend (sort_key cstart vs)) = Max (cend ` set vs)"
      using ne by (simp add: py_max_Max)
    have d7: "0 < days 7" by (simp add: days_def)
    from collect_nonempty_set [OF Inr False] d7 Inr False show ?thesis
      by (simp add: generate_gantt_image_def Let_def mn mx dt_sub_def dt_add_def)
  qed
qed

lemma resolve_away:
  "away_from_limits clock t \<Longrightarrow>
     resolve_task clock t = Inr None
     \<or> (\<exists>ct. resolve_task clock t = Inr (Some ct)
            \<and> days 7 \<le> cstart ct \<and> cend ct + days 7 \<le> dt_max)"
  by (auto simp: resolve_task_table away_from_limits_def days_def split: option.splits)

lemma collect_away:
  "\<forall>t \<in> set ts. away_from_limits clock t \<Longrightarrow>
     \<exists>vs. collect_valid clock ts = Inr vs
        \<and> (\<forall>v \<in> set vs. days 7 \<le> cstart v \<and> cend v + days 7 \<le> dt_max)"
proof (induction ts)
  case Nil
  then show ?case by simp
next
  case (Cons t ts)
  then obtain vs where vs: "collect_valid clock ts = Inr vs"
    "\<forall>v \<in> set vs. days 7 \<le> cstart v \<and> cend v + days 7 \<le> dt_max"
    by auto
  from Cons.prems have "away_from_limits clock t" by simp
  from resolve_away [OF this] vs show ?case by auto
qed

lemma generate_away:
  assumes "\<forall>t \<in> set ts. away_from_limits clock t"
  shows "\<exists>r. generate_gantt_image clock ts pn = Inr r"
proof -
  from collect_away [OF assms] obtain vs where vs: "collect_valid clock ts = Inr vs"
    "\<forall>v \<in> set vs. days 7 \<le> cstart v \<and> cend v + days 7 \<le> dt_max"
    by auto
  show ?thesis
  proof (cases "vs = []")
    case True
    with vs show ?thesis by (simp add: generate_table)
  next
    case False
    have fin: "finite (cstart ` set vs)" "finite (cend ` set vs)" by simp_all
    from False have nes: "cstart ` set vs \<noteq> {}" "cend ` set vs \<noteq> {}" by simp_all
    from Min_in [OF fin(1) nes(1)] vs(2) have a: "days 7 \<le> Min (cstart ` set vs)" by auto
    from Max_in [OF fin(2) nes(2)] vs(2) have b: "Max (cend ` set vs) + days 7 \<le> dt_max" by auto
    from vs(1) False a b show ?thesis by (simp add: generate_table)
  qed
qed

text \<open>
  Claim C5, as the code has it. The renderer returns \<open>None\<close> exactly when no record of
  the input decodes a timestamp (the empty input included). Whenever it returns an image,
  the number of bars drawn is the number of input records minus the number of records
  neither of whose timestamps decodes. It raises nothing but the \<open>OverflowError\<close> of the
  date arithmetic, and it returns (an image or \<open>None\<close>) whenever every decoded date is
  at least eight days inside the range of dates.
\<close>

theorem C5_render_failure_and_count:
  "(generate_gantt_image clock tasks pn = Inr None \<longleftrightarrow> (\<forall>t \<in> set tasks. undated clock t))
   \<and> (\<forall>ch. generate_gantt_image clock tasks pn = Inr (Some ch) \<longrightarrow>
          length (bars ch) = length tasks - length (filter (undated clock) tasks))
   \<and> (\<forall>e. generate_gantt_image clock tasks pn = Inl e \<longrightarrow> e = OverflowError)
   \<and> ((\<forall>t \<in> set tasks. away_from_limits clock t) \<longrightarrow>
        (\<exists>r. generate_gantt_image clock tasks pn = Inr r))"
proof (intro conjI allI impI)
  show "generate_gantt_image clock tasks pn = Inr None \<longleftrightarrow> (\<forall>t \<in> set tasks. undated clock t)"
    using collect_empty_iff [of clock tasks]
    by (auto simp: generate_table split: sum.splits if_splits)
next
  fix ch
  assume "generate_gantt_image clock tasks pn = Inr (Some ch)"
  then obtain vs where vs: "collect_valid clock tasks = Inr vs"
    and b: "bars ch = map draw_bar (enumerate 0 (rev (sort_key cstart vs)))"
    by (auto simp: generate_table split: sum.splits if_splits)
  from b have "length (bars ch) = length vs" by simp
  with collect_length [OF vs]
  show "length (bars ch) = length tasks - length (filter (undated clock) tasks)" by simp
next
  fix e
  assume "generate_gantt_image clock tasks pn = Inl e"
  then show "e = OverflowError"
    by (auto simp: generate_table split: sum.splits if_splits dest: collect_Inl)
next
  assume "\<forall>t \<in> set tasks. away_from_limits clock t"
  then show "\<exists>r. generate_gantt_image clock tasks pn = Inr r" by (rule generate_away)
qed

text \<open>
  Claim C7, as the code has it. For a set of chart tasks that is not empty, the time axis
  goes from the least start minus seven days to the greatest end plus seven days, when
  these two are dates; otherwise the renderer raises \<open>OverflowError\<close> and draws nothing.
\<close>

theorem C7_axis_range:
  "collect_valid clock tasks = Inr vs \<Longrightarrow> vs \<noteq> [] \<Longrightarrow>
     (if days 7 \<le> Min (cstart ` set vs) \<and> Max (cend ` set vs) + days 7 \<le> dt_max
      then \<exists>ch. generate_gantt_image clock tasks pn = Inr (Some ch)
             \<and> xlim ch = (Min (cstart ` set vs) - days 7, Max (cend ` set vs) + days 7)
      else generate_gantt_image clock tasks pn = Inl OverflowError)"
  by (simp add: generate_table)

subsection \<open>The order of the bars\<close>

lemma draw_bar_fields:
  "bar_idx (draw_bar (i, ct)) = i"
  "bar_left (draw_bar (i, ct)) = cstart ct"
  "bar_label (draw_bar (i, ct)) = cname ct"
  "bar_width (draw_bar (i, ct)) = duration ct"
  "bar_color (draw_bar (i, ct)) = status_color (cstatus ct)"
  by (simp_all add: draw_bar_def)

lemma bars_idx: "map bar_idx (map draw_bar (enumerate 0 xs)) = [0 ..< length xs]"
proof -
  have "bar_idx \<circ> draw_bar = fst" by (auto simp: fun_eq_iff draw_bar_fields)
  then show ?thesis by (simp add: map_fst_enumerate)
qed

lemma bar_of_snd:
  "bar_left (draw_bar p) = cstart (snd p)" "bar_label (draw_bar p) = cname (snd p)"
  by (cases p, simp add: draw_bar_def)+

lemma bars_left: "map bar_left (map draw_bar (enumerate 0 xs)) = map cstart xs"
proof -
  have e: "bar_left \<circ> draw_bar = cstart \<circ> snd"
    by (auto simp: fun_eq_iff bar_of_snd)
  have "map bar_left (map draw_bar (enumerate 0 xs)) = map (cstart \<circ> snd) (enumerate 0 xs)"
    by (simp only: map_map e)
  also have "\<dots> = map cstart (map snd (enumerate 0 xs))" by (simp only: map_map)
  also have "\<dots> = map cstart xs" by (simp only: map_snd_enumerate)
  finally show ?thesis .
qed

lemma bars_label: "map bar_label (map draw_bar (enumerate 0 xs)) = map cname xs"
proof -
  have e: "bar_label \<circ> draw_bar = cname \<circ> snd"
    by (auto simp: fun_eq_iff bar_of_snd)
  have "map bar_label (map draw_bar (enumerate 0 xs)) = map (cname \<circ> snd) (enumerate 0 xs)"
    by (simp only: map_map e)
  also have "\<dots> = map cname (map snd (enumerate 0 xs))" by (simp only: map_map)
  also have "\<dots> = map cname xs" by (simp only: map_snd_enumerate)
  finally show ?thesis .
qed

lemma sorted_hd_Min: "sorted xs \<Longrightarrow> xs \<noteq> [] \<Longrightarrow> hd xs = Min (set (xs :: int list))"
  by (cases xs) (auto intro!: Min_eqI [symmetric])

lemma chart_order:
  assumes "generate_gantt_image clock tasks pn = Inr (Some ch)"
  shows "\<exists>vs. collect_valid clock tasks = Inr vs \<and> vs \<noteq> []
           \<and> length (bars ch) = length vs
           \<and> map bar_left (rev (bars ch)) = map cstart (sort_key cstart vs)
           \<and> map bar_label (rev (bars ch)) = map cname (sort_key cstart vs)
           \<and> map bar_idx (bars ch) = [0 ..< length vs]
           \<and> bar_idx (last (bars ch)) = length vs - 1
           \<and> bar_left (last (bars ch)) = Min (cstart ` set vs)"
proof -
  from assms obtain vs where vs: "collect_valid clock tasks = Inr vs" "vs \<noteq> []"
    and b: "bars ch = map draw_bar (enumerate 0 (rev (sort_key cstart vs)))"
    by (auto simp: generate_table split: sum.splits if_splits)
  let ?srt = "sort_key cstart vs"
  have len: "length (bars ch) = length vs" using b by simp
  have ne: "bars ch \<noteq> []" using len vs(2) by auto
  have l: "map bar_left (bars ch) = map cstart (rev ?srt)" unfolding b by (rule bars_left)
  have n: "map bar_label (bars ch) = map cname (rev ?srt)" unfolding b by (rule bars_label)
  have i: "map bar_idx (bars ch) = [0 ..< length vs]" unfolding b using bars_idx [of "rev ?srt"] by simp
  have l': "map bar_left (rev (bars ch)) = map cstart ?srt"
    using l by (metis rev_map rev_rev_ident)
  have n': "map bar_label (rev (bars ch)) = map cname ?srt"
    using n by (metis rev_map rev_rev_ident)
  have "bar_idx (last (bars ch)) = last (map bar_idx (bars ch))"
    using ne by (simp add: last_map)
  also have "\<dots> = length vs - 1" unfolding i using vs(2) by (simp add: last_upt)
  finally have top: "bar_idx (last (bars ch)) = length vs - 1" .
  have sne: "map cstart ?srt \<noteq> []" using vs(2) by (metis length_sort length_0_conv map_is_Nil_conv)
  have "bar_left (last (bars ch)) = last (map bar_left (bars ch))"
    using ne by (simp add: last_map)
  also have "\<dots> = hd (map cstart ?srt)"
    unfolding l using sne by (metis last_rev rev_map)
  also have "\<dots> = Min (set (map cstart ?srt))"
    using sne by (intro sorted_hd_Min) (simp_all add: sorted_sort_key)
  also have "\<dots> = Min (cstart ` set vs)" by simp
  finally have early: "bar_left (last (bars ch)) = Min (cstart ` set vs)" .
  from vs len l' n' i top early show ?thesis by blast
qed

subsection \<open>The scenario and the examples\<close>

lemma decode_examples:
  "clickup_timestamp_to_date utc_clock (JStr ''1700000000000'') = Some 63835596800000000"
  "clickup_timestamp_to_date utc_clock (JStr ''1700172800000'') = Some 63835769600000000"
  "clickup_timestamp_to_date utc_clock (JStr ''1700432000000'') = Some 63836028800000000"
  "clickup_timestamp_to_date utc_clock (JStr ''253402300799000'') = Some 315537897599000000"
  "clickup_timestamp_to_date utc_clock (JStr ''253400000000000'') = Some 315535596800000000"
  "clickup_timestamp_to_date utc_clock (JStr ''253402000000000'') = Some 315537596800000000"
  "clickup_timestamp_to_date utc_clock JNull = None"
  by (simp_all add: date_eval str_eval)

lemmas task_examples = task_A_def task_B_def task_C_def task_last_day_def task_last_week_def

lemma scenario_collect:
  assumes sA: "clickup_timestamp_to_date clock (start_date tA) = Some d0"
    and eA: "clickup_timestamp_to_date clock (due_date tA) = Some (d0 + days 2)"
    and sB: "clickup_timestamp_to_date clock (start_date tB) = None"
    and eB: "clickup_timestamp_to_date clock (due_date tB) = Some (d0 + days 5)"
    and uC: "undated clock tC"
  shows "collect_valid clock [tA, tB, tC] =
           Inr [\<lparr>cname = task_name_of tA, cstart = d0, cend = d0 + days 2,
                  cstatus = status_of tA\<rparr>,
                \<lparr>cname = task_name_of tB, cstart = d0 + days 4, cend = d0 + days 5,
                  cstatus = status_of tB\<rparr>]"
proof -
  from decode_in_range [OF sA] have d0: "0 \<le> d0" by simp
  have rA: "resolve_task clock tA =
      Inr (Some \<lparr>cname = task_name_of tA, cstart = d0, cend = d0 + days 2, cstatus = status_of tA\<rparr>)"
    by (simp add: resolve_task_table sA eA)
  have rB: "resolve_task clock tB =
      Inr (Some \<lparr>cname = task_name_of tB, cstart = d0 + days 4, cend = d0 + days 5, cstatus = status_of tB\<rparr>)"
    using d0 by (simp add: resolve_task_table sB eB days_def)
  have rC: "resolve_task clock tC = Inr None"
    using uC by (simp add: resolve_None_iff)
  show ?thesis by (simp add: rA rB rC)
qed

lemma scenario_sort:
  "sort_key cstart
     [\<lparr>cname = a, cstart = d0, cend = e, cstatus = s\<rparr>,
      \<lparr>cname = b, cstart = d0 + days 4, cend = f, cstatus = u\<rparr>]
   = [\<lparr>cname = a, cstart = d0, cend = e, cstatus = s\<rparr>,
      \<lparr>cname = b, cstart = d0 + days 4, cend = f, cstatus = u\<rparr>]"
  "sort_key cstart
     [\<lparr>cname = b, cstart = d0 + days 4, cend = f, cstatus = u\<rparr>,
      \<lparr>cname = a, cstart = d0, cend = e, cstatus = s\<rparr>]
   = [\<lparr>cname = a, cstart = d0, cend = e, cstatus = s\<rparr>,
      \<lparr>cname = b, cstart = d0 + days 4, cend = f, cstatus = u\<rparr>]"
  by (simp_all add: days_def)

theorem C5_counterexample:
  "\<not> undated utc_clock task_last_day
   \<and> generate_gantt_image utc_clock [task_last_day] ''P'' = Inl OverflowError"
  by (simp add: undated_def generate_table resolve_task_table task_examples decode_examples
        days_def dt_max_def)

theorem C7_counterexample:
  "collect_valid utc_clock [task_last_week] =
     Inr [\<lparr>cname = ''W'', cstart = 315535596800000000, cend = 315537596800000000,
            cstatus = ''Sin Status''\<rparr>]
   \<and> generate_gantt_image utc_clock [task_last_week] ''P'' = Inl OverflowError"
  by (simp add: generate_table resolve_task_table task_examples decode_examples
        task_name_of_def status_of_def days_def dt_max_def)

lemma collect_ABC:
  "collect_valid utc_clock [task_A, task_B, task_C] =
     Inr [\<lparr>cname = ''A'', cstart = 63835596800000000, cend = 63835769600000000,
            cstatus = ''in progress''\<rparr>,
          \<lparr>cname = ''B'', cstart = 63835942400000000, cend = 63836028800000000,
            cstatus = ''Done''\<rparr>]"
  by (simp add: resolve_task_table task_examples decode_examples
        task_name_of_def status_of_def days_def dt_max_def)

lemma away_ABC: "\<forall>t \<in> set [task_A, task_B, task_C]. away_from_limits utc_clock t"
  by (simp add: away_from_limits_def task_examples decode_examples days_def dt_max_def)

lemma undated_ABC:
  "\<not> undated utc_clock task_A" "\<not> undated utc_clock task_B" "undated utc_clock task_C"
  by (simp_all add: undated_def task_examples decode_examples)

theorem C5_witness:
  "\<exists>ch. generate_gantt_image utc_clock [task_A, task_B, task_C] ''P'' = Inr (Some ch)
      \<and> length (bars ch) = 2"
proof -
  note c5 = C5_render_failure_and_count [of utc_clock "[task_A, task_B, task_C]" "''P''"]
  from c5 away_ABC obtain r where r: "generate_gantt_image utc_clock [task_A, task_B, task_C] ''P'' = Inr r"
    by blast
  from c5 undated_ABC have "generate_gantt_image utc_clock [task_A, task_B, task_C] ''P'' \<noteq> Inr None"
    by simp
  with r obtain ch where ch: "generate_gantt_image utc_clock [task_A, task_B, task_C] ''P'' = Inr (Some ch)"
    by (cases r) auto
  with c5 have "length (bars ch) =
      length [task_A, task_B, task_C] - length (filter (undated utc_clock) [task_A, task_B, task_C])"
    by blast
  with undated_ABC have "length (bars ch) = 2" by simp
  with ch show ?thesis by blast
qed

theorem C7_witness:
  "\<exists>ch. generate_gantt_image utc_clock [task_A, task_B, task_C] ''P'' = Inr (Some ch)
      \<and> xlim ch = (63834992000000000, 63836633600000000)"
  using C7_axis_range [OF collect_ABC, of "''P''"]
  by (simp add: days_def dt_max_def)

text \<open>
  Claim C8. In every image the renderer returns, the chart tasks are sorted by start date,
  ascending (a stable sort of the tasks that have a date), and drawn in reversed order:
  the bars, read from the last drawn to the first, have the starts and names of the sorted
  tasks, the vertical positions are 0, 1, ... in drawing order (a higher position is
  higher on the chart, the vertical axis going from -0.5 up), and the bar at the highest
  position is the one with the least start. In the scenario of three tasks, A from day 0
  to day 2, B due on day 5 with no start, C with no date: C is dropped, B starts on day 4,
  A and B are the chart tasks, A comes before B in sort order, and (when the axis margins
  are dates) B is drawn at position 0 and A above it at position 1.
\<close>

theorem C8_chart_order:
  "(generate_gantt_image clock tasks pn = Inr (Some ch) \<longrightarrow>
      (\<exists>vs. collect_valid clock tasks = Inr vs \<and> vs \<noteq> []
         \<and> length (bars ch) = length vs
         \<and> sorted (map cstart (sort_key cstart vs))
         \<and> set (sort_key cstart vs) = set vs
         \<and> map bar_left (rev (bars ch)) = map cstart (sort_key cstart vs)
         \<and> map bar_label (rev (bars ch)) = map cname (sort_key cstart vs)
         \<and> map bar_idx (bars ch) = [0 ..< length vs]
         \<and> bar_idx (last (bars ch)) = length vs - 1
         \<and> bar_left (last (bars ch)) = Min (cstart ` set vs)))
   \<and> (clickup_timestamp_to_date clock (start_date tA) = Some d0
        \<and> clickup_timestamp_to_date clock (due_date tA) = Some (d0 + days 2)
        \<and> clickup_timestamp_to_date clock (start_date tB) = None
        \<and> clickup_timestamp_to_date clock (due_date tB) = Some (d0 + days 5)
        \<and> undated clock tC \<longrightarrow>
      collect_valid clock [tA, tB, tC] =
        Inr [\<lparr>cname = task_name_of tA, cstart = d0, cend = d0 + days 2,
               cstatus = status_of tA\<rparr>,
             \<lparr>cname = task_name_of tB, cstart = d0 + days 4, cend = d0 + days 5,
               cstatus = status_of tB\<rparr>]
      \<and> sort_key cstart
          [\<lparr>cname = task_name_of tA, cstart = d0, cend = d0 + days 2,
             cstatus = status_of tA\<rparr>,
           \<lparr>cname = task_name_of tB, cstart = d0 + days 4, cend = d0 + days 5,
             cstatus = status_of tB\<rparr>] =
          [\<lparr>cname = task_name_of tA, cstart = d0, cend = d0 + days 2,
             cstatus = status_of tA\<rparr>,
           \<lparr>cname = task_name_of tB, cstart = d0 + days 4, cend = d0 + days 5,
             cstatus = status_of tB\<rparr>]
      \<and> (days 7 \<le> d0 \<and> d0 + days 12 \<le> dt_max \<longrightarrow>
           (\<exists>c. generate_gantt_image clock [tA, tB, tC] pn = Inr (Some c)
              \<and> map bar_label (bars c) = [task_name_of tB, task_name_of tA]
              \<and> map bar_left (bars c) = [d0 + days 4, d0]
              \<and> map bar_idx (bars c) = [0, 1])))"
proof (intro conjI impI)
  assume g: "generate_gantt_image clock tasks pn = Inr (Some ch)"
  from chart_order [OF g] obtain vs where vs: "collect_valid clock tasks = Inr vs" "vs \<noteq> []"
    "length (bars ch) = length vs"
    "map bar_left (rev (bars ch)) = map cstart (sort_key cstart vs)"
    "map bar_label (rev (bars ch)) = map cname (sort_key cstart vs)"
    "map bar_idx (bars ch) = [0 ..< length vs]"
    "bar_idx (last (bars ch)) = length vs - 1"
    "bar_left (last (bars ch)) = Min (cstart ` set vs)"
    by blast
  have "sorted (map cstart (sort_key cstart vs))" by (rule sorted_sort_key)
  moreover have "set (sort_key cstart vs) = set vs" by simp
  ultimately show "\<exists>vs. collect_valid clock tasks = Inr vs \<and> vs \<noteq> []
         \<and> length (bars ch) = length vs
         \<and> sorted (map cstart (sort_key cstart vs))
         \<and> set (sort_key cstart vs) = set vs
         \<and> map bar_left (rev (bars ch)) = map cstart (sort_key cstart vs)
         \<and> map bar_label (rev (bars ch)) = map cname (sort_key cstart vs)
         \<and> map bar_idx (bars ch) = [0 ..< length vs]
         \<and> bar_idx (last (bars ch)) = length vs - 1
         \<and> bar_left (last (bars ch)) = Min (cstart ` set vs)"
    using vs by blast
next
  assume h: "clickup_timestamp_to_date clock (start_date tA) = Some d0
        \<and> clickup_timestamp_to_date clock (due_date tA) = Some (d0 + days 2)
        \<and> clickup_timestamp_to_date clock (start_date tB) = None
        \<and> clickup_timestamp_to_date clock (due_date tB) = Some (d0 + days 5)
        \<and> undated clock tC"
  then show "collect_valid clock [tA, tB, tC] =
        Inr [\<lparr>cname = task_name_of tA, cstart = d0, cend = d0 + days 2,
               cstatus = status_of tA\<rparr>,
             \<lparr>cname = task_name_of tB, cstart = d0 + days 4, cend = d0 + days 5,
               cstatus = status_of tB\<rparr>]"
    by (intro scenario_collect) simp_all
next
  show "sort_key cstart
          [\<lparr>cname = task_name_of tA, cstart = d0, cend = d0 + days 2,
             cstatus = status_of tA\<rparr>,
           \<lparr>cname = task_name_of tB, cstart = d0 + days 4, cend = d0 + days 5,
             cstatus = status_of tB\<rparr>] =
          [\<lparr>cname = task_name_of tA, cstart = d0, cend = d0 + days 2,
             cstatus = status_of tA\<rparr>,
           \<lparr>cname = task_name_of tB, cstart = d0 + days 4, cend = d0 + days 5,
             cstatus = status_of tB\<rparr>]"
    by (rule scenario_sort)
next
  assume h: "clickup_timestamp_to_date clock (start_date tA) = Some d0
        \<and> clickup_timestamp_to_date clock (due_date tA) = Some (d0 + days 2)
        \<and> clickup_timestamp_to_date clock (start_date tB) = None
        \<and> clickup_timestamp_to_date clock (due_date tB) = Some (d0 + days 5)
        \<and> undated clock tC"
    and r: "days 7 \<le> d0 \<and> d0 + days 12 \<le> dt_max"
  from h have c: "collect_valid clock [tA, tB, tC] =
        Inr [\<lparr>cname = task_name_of tA, cstart = d0, cend = d0 + days 2,
               cstatus = status_of tA\<rparr>,
             \<lparr>cname = task_name_of tB, cstart = d0 + days 4, cend = d0 + days 5,
               cstatus = status_of tB\<rparr>]"
    by (intro scenario_collect) simp_all
  from r show "\<exists>c. generate_gantt_image clock [tA, tB, tC] pn = Inr (Some c)
              \<and> map bar_label (bars c) = [task_name_of tB, task_name_of tA]
              \<and> map bar_left (bars c) = [d0 + days 4, d0]
              \<and> map bar_idx (bars c) = [0, 1]"
    by (simp only: generate_table c sum.case)
       (simp add: scenario_sort enumerate_simps draw_bar_fields days_def)
qed

theorem C8_witness:
  "collect_valid utc_clock [task_A, task_B, task_C] =
     Inr [\<lparr>cname = ''A'', cstart = 63835596800000000, cend = 63835769600000000,
            cstatus = ''in progress''\<rparr>,
          \<lparr>cname = ''B'', cstart = 63835942400000000, cend = 63836028800000000,
            cstatus = ''Done''\<rparr>]
   \<and> (\<exists>c. generate_gantt_image utc_clock [task_A, task_B, task_C] ''P'' = Inr (Some c)
         \<and> map bar_label (bars c) = [''B'', ''A'']
         \<and> map bar_idx (bars c) = [0, 1])"
proof -
  have h: "clickup_timestamp_to_date utc_clock (start_date task_A) = Some 63835596800000000
        \<and> clickup_timestamp_to_date utc_clock (due_date task_A) = Some (63835596800000000 + days 2)
        \<and> clickup_timestamp_to_date utc_clock (start_date task_B) = None
        \<and> clickup_timestamp_to_date utc_clock (due_date task_B) = Some (63835596800000000 + days 5)
        \<and> undated utc_clock task_C"
    by (simp add: undated_def task_examples decode_examples days_def)
  have r: "days 7 \<le> (63835596800000000 :: int) \<and> 63835596800000000 + days 12 \<le> dt_max"
    by (simp add: days_def dt_max_def)
  have n: "task_name_of task_A = ''A''" "task_name_of task_B = ''B''"
    "status_of task_A = ''in progress''" "status_of task_B = ''Done''"
    by (simp_all add: task_name_of_def status_of_def task_examples)
  from C8_chart_order [where clock = utc_clock and tA = task_A and tB = task_B
      and tC = task_C and ?d0.0 = 63835596800000000 and pn = "''P''", THEN conjunct2] h r
  show ?thesis
    unfolding n by (auto simp add: days_def simp del: collect_valid.simps)
qed

subsection \<open>The retry loops\<close>

lemma range3: "[0 ..< max_retries] = [0, 1, 2]"
  by (simp add: max_retries_def upt_rec)

lemma calls_simps:
  "folder_calls t f 0 = []"
  "folder_calls t f 1 = [GetFolder t f 15]"
  "folder_calls t f 2 = [GetFolder t f 15, GetFolder t f 20]"
  "folder_calls t f 3 = [GetFolder t f 15, GetFolder t f 20, GetFolder t f 25]"
  "tasks_calls t f 0 = []"
  "tasks_calls t f 1 = [GetListTasks t f 15]"
  "tasks_calls t f 2 = [GetListTasks t f 15, GetListTasks t f 20]"
  "tasks_calls t f 3 = [GetListTasks t f 15, GetListTasks t f 20, GetListTasks t f 25]"
  "folder_calls t f (Suc 0) = [GetFolder t f 15]"
  "tasks_calls t f (Suc 0) = [GetListTasks t f 15]"
  by (simp_all add: folder_calls_def tasks_calls_def upt_rec)

lemma verdict_retryable: "retryable r \<Longrightarrow> verdict r = None"
  by (auto simp: retryable_def verdict_def)

lemma folder_step:
  "folder_attempts env t f (a # rest) h =
     (if retryable (folder_api env h t f (15 + a * 5))
      then if a = max_retries - 1 then (None, h @ [GetFolder t f (15 + a * 5)])
           else folder_attempts env t f rest (h @ [GetFolder t f (15 + a * 5)])
      else (verdict (folder_api env h t f (15 + a * 5)), h @ [GetFolder t f (15 + a * 5)]))"
proof (cases "folder_api env h t f (15 + a * 5)")
  case (Raises e)
  then show ?thesis
    by (cases e) (simp_all add: Let_def retryable_def verdict_def)
next
  case (Responds sc body)
  then show ?thesis
    by (simp add: Let_def retryable_def verdict_def raise_for_status_def)
qed

lemma tasks_step:
  "tasks_attempts env t f (a # rest) h =
     (if retryable (tasks_api env h t f (15 + a * 5))
      then if a = max_retries - 1 then (None, h @ [GetListTasks t f (15 + a * 5)])
           else tasks_attempts env t f rest (h @ [GetListTasks t f (15 + a * 5)])
      else (verdict (tasks_api env h t f (15 + a * 5)), h @ [GetListTasks t f (15 + a * 5)]))"
proof (cases "tasks_api env h t f (15 + a * 5)")
  case (Raises e)
  then show ?thesis
    by (cases e) (simp_all add: Let_def retryable_def verdict_def)
next
  case (Responds sc body)
  then show ?thesis
    by (simp add: Let_def retryable_def verdict_def raise_for_status_def)
qed

lemma folder_table:
  "get_lists_from_folder env t f h =
     (if \<not> retryable (folder_reply env h t f 0)
      then (verdict (folder_reply env h t f 0), h @ folder_calls t f 1)
      else if \<not> retryable (folder_reply env h t f 1)
      then (verdict (folder_reply env h t f 1), h @ folder_calls t f 2)
      else (verdict (folder_reply env h t f 2), h @ folder_calls t f 3))"
  unfolding get_lists_from_folder_def range3 folder_reply_def calls_simps folder_step
  by (simp add: max_retries_def verdict_retryable del: folder_attempts.simps)

lemma tasks_table:
  "get_clickup_tasks env t f h =
     (if \<not> retryable (tasks_reply env h t f 0)
      then (verdict (tasks_reply env h t f 0), h @ tasks_calls t f 1)
      else if \<not> retryable (tasks_reply env h t f 1)
      then (verdict (tasks_reply env h t f 1), h @ tasks_calls t f 2)
      else (verdict (tasks_reply env h t f 2), h @ tasks_calls t f 3))"
  unfolding get_clickup_tasks_def range3 tasks_reply_def calls_simps tasks_step
  by (simp add: max_retries_def verdict_retryable del: tasks_attempts.simps)

lemma retryable_simps:
  "retryable (Raises Timeout)"
  "retryable (Raises ConnectionError)"
  "\<not> retryable (Raises OtherRequestException)"
  "\<not> retryable (Responds sc b)"
  by (simp_all add: retryable_def)

lemma verdict_client_error:
  "sc = 401 \<or> sc = 403 \<or> sc = 404 \<Longrightarrow> verdict (Responds sc b) = None"
  by (auto simp: verdict_def raise_for_status_def)

lemma folder_attempt_count:
  "\<exists>k. 1 \<le> k \<and> k \<le> 3 \<and> snd (get_lists_from_folder env t f h) = h @ folder_calls t f k"
proof (cases "retryable (folder_reply env h t f 0)")
  case False
  then have "snd (get_lists_from_folder env t f h) = h @ folder_calls t f 1"
    by (simp add: folder_table)
  then show ?thesis by (intro exI [of _ 1]) simp
next
  case True
  note r0 = True
  show ?thesis
  proof (cases "retryable (folder_reply env h t f 1)")
    case False
    with r0 have "snd (get_lists_from_folder env t f h) = h @ folder_calls t f 2"
      by (simp add: folder_table)
    then show ?thesis by (intro exI [of _ 2]) simp
  next
    case True
    with r0 have "snd (get_lists_from_folder env t f h) = h @ folder_calls t f 3"
      by (simp add: folder_table)
    then show ?thesis by (intro exI [of _ 3]) simp
  qed
qed

lemma tasks_attempt_count:
  "\<exists>k. 1 \<le> k \<and> k \<le> 3 \<and> snd (get_clickup_tasks env t l h) = h @ tasks_calls t l k"
proof (cases "retryable (tasks_reply env h t l 0)")
  case False
  then have "snd (get_clickup_tasks env t l h) = h @ tasks_calls t l 1"
    by (simp add: tasks_table)
  then show ?thesis by (intro exI [of _ 1]) simp
next
  case True
  note r0 = True
  show ?thesis
  proof (cases "retryable (tasks_reply env h t l 1)")
    case False
    with r0 have "snd (get_clickup_tasks env t l h) = h @ tasks_calls t l 2"
      by (simp add: tasks_table)
    then show ?thesis by (intro exI [of _ 2]) simp
  next
    case True
    with r0 have "snd (get_clickup_tasks env t l h) = h @ tasks_calls t l 3"
      by (simp add: tasks_table)
    then show ?thesis by (intro exI [of _ 3]) simp
  qed
qed

text \<open>
  Claim C3. Each of the two fetches makes between one and three attempts, with the
  timeouts 15, 20 and 25 in this order. When all three attempts time out or fail to
  connect, the function returns \<open>None\<close> to its caller. A response with status 401, 403 or
  404, at whichever attempt, returns \<open>None\<close> at once: the calls made end with that
  attempt. When the first two attempts time out and the third is answered with a status
  that is no error, the function returns the lists (the tasks) of that answer.
\<close>

theorem C3_retry_policy:
  "(\<exists>k. 1 \<le> k \<and> k \<le> 3 \<and> snd (get_lists_from_folder env t f h) = h @ folder_calls t f k)
   \<and> folder_calls t f 3 = [GetFolder t f 15, GetFolder t f 20, GetFolder t f 25]
   \<and> (retryable (folder_reply env h t f 0) \<and> retryable (folder_reply env h t f 1)
        \<and> retryable (folder_reply env h t f 2) \<longrightarrow>
        get_lists_from_folder env t f h = (None, h @ folder_calls t f 3))
   \<and> (folder_reply env h t f 0 = Responds sc body \<and> (sc = 401 \<or> sc = 403 \<or> sc = 404) \<longrightarrow>
        get_lists_from_folder env t f h = (None, h @ folder_calls t f 1))
   \<and> (retryable (folder_reply env h t f 0)
        \<and> folder_reply env h t f 1 = Responds sc body \<and> (sc = 401 \<or> sc = 403 \<or> sc = 404) \<longrightarrow>
        get_lists_from_folder env t f h = (None, h @ folder_calls t f 2))
   \<and> (retryable (folder_reply env h t f 0) \<and> retryable (folder_reply env h t f 1)
        \<and> folder_reply env h t f 2 = Responds sc body \<and> (sc = 401 \<or> sc = 403 \<or> sc = 404) \<longrightarrow>
        get_lists_from_folder env t f h = (None, h @ folder_calls t f 3))
   \<and> (folder_reply env h t f 0 = Raises Timeout \<and> folder_reply env h t f 1 = Raises Timeout
        \<and> folder_reply env h t f 2 = Responds sc body \<and> \<not> raise_for_status sc \<longrightarrow>
        get_lists_from_folder env t f h =
          (Some (case body of None \<Rightarrow> [] | Some ls \<Rightarrow> ls), h @ folder_calls t f 3))
   \<and> (\<exists>k. 1 \<le> k \<and> k \<le> 3 \<and> snd (get_clickup_tasks env t l h) = h @ tasks_calls t l k)
   \<and> tasks_calls t l 3 = [GetListTasks t l 15, GetListTasks t l 20, GetListTasks t l 25]
   \<and> (retryable (tasks_reply env h t l 0) \<and> retryable (tasks_reply env h t l 1)
        \<and> retryable (tasks_reply env h t l 2) \<longrightarrow>
        get_clickup_tasks env t l h = (None, h @ tasks_calls t l 3))
   \<and> (tasks_reply env h t l 0 = Responds sc' body' \<and> (sc' = 401 \<or> sc' = 403 \<or> sc' = 404) \<longrightarrow>
        get_clickup_tasks env t l h = (None, h @ tasks_calls t l 1))
   \<and> (retryable (tasks_reply env h t l 0)
        \<and> tasks_reply env h t l 1 = Responds sc' body' \<and> (sc' = 401 \<or> sc' = 403 \<or> sc' = 404) \<longrightarrow>
        get_clickup_tasks env t l h = (None, h @ tasks_calls t l 2))
   \<and> (retryable (tasks_reply env h t l 0) \<and> retryable (tasks_reply env h t l 1)
        \<and> tasks_reply env h t l 2 = Responds sc' body' \<and> (sc' = 401 \<or> sc' = 403 \<or> sc' = 404) \<longrightarrow>
        get_clickup_tasks env t l h = (None, h @ tasks_calls t l 3))
   \<and> (tasks_reply env h t l 0 = Raises Timeout \<and> tasks_reply env h t l 1 = Raises Timeout
        \<and> tasks_reply env h t l 2 = Responds sc' body' \<and> \<not> raise_for_status sc' \<longrightarrow>
        get_clickup_tasks env t l h =
          (Some (case body' of None \<Rightarrow> [] | Some ts \<Rightarrow> ts), h @ tasks_calls t l 3))"
proof (intro conjI impI)
  show "\<exists>k. 1 \<le> k \<and> k \<le> 3 \<and> snd (get_lists_from_folder env t f h) = h @ folder_calls t f k"
    by (rule folder_attempt_count)
  show "folder_calls t f 3 = [GetFolder t f 15, GetFolder t f 20, GetFolder t f 25]"
    by (rule calls_simps)
  show "\<exists>k. 1 \<le> k \<and> k \<le> 3 \<and> snd (get_clickup_tasks env t l h) = h @ tasks_calls t l k"
    by (rule tasks_attempt_count)
  show "tasks_calls t l 3 = [GetListTasks t l 15, GetListTasks t l 20, GetListTasks t l 25]"
    by (rule calls_simps)
qed (auto simp: folder_table tasks_table retryable_simps verdict_retryable
       verdict_client_error, auto simp: verdict_def)

lemma example_folder_replies:
  "folder_reply example_remote [] ''k'' ''F'' 0 = Raises Timeout"
  "folder_reply example_remote [] ''k'' ''F'' 1 = Raises Timeout"
  "folder_reply example_remote [] ''k'' ''F'' (Suc 0) = Raises Timeout"
  "folder_reply example_remote [] ''k'' ''F'' 2 = Responds 200 (Some [list_L1, list_L2])"
  by (simp_all add: folder_reply_def example_remote_def folder_calls_def upt_rec)

lemma example_L2_replies:
  "tasks_reply example_remote h ''k'' ''L2'' i = Raises Timeout"
  by (simp add: tasks_reply_def example_remote_def)

lemma example_L1_reply:
  "tasks_reply example_remote h ''k'' ''L1'' 0 = Responds 200 (Some [task_A, task_B, task_C])"
  by (simp add: tasks_reply_def example_remote_def)

theorem C3_witness:
  "get_lists_from_folder example_remote ''k'' ''F'' [] =
     (Some [list_L1, list_L2],
      [GetFolder ''k'' ''F'' 15, GetFolder ''k'' ''F'' 20, GetFolder ''k'' ''F'' 25])
   \<and> get_clickup_tasks example_remote ''k'' ''L2'' [] =
     (None,
      [GetListTasks ''k'' ''L2'' 15, GetListTasks ''k'' ''L2'' 20, GetListTasks ''k'' ''L2'' 25])"
  using C3_retry_policy [of example_remote "''k''" "''F''" "[]" 200 "Some [list_L1, list_L2]"
      "''L2''" 0 None]
  by (simp add: example_folder_replies example_L2_replies retryable_def raise_for_status_def
        calls_simps)

subsection \<open>The tasks of a folder\<close>

lemma folder_tasks_fetch_each:
  "folder_tasks env tok ls acc h =
     (case fetch_each env tok ls h of
        (rs, h') \<Rightarrow> (acc @ concat (map tasks_of rs), h'))"
proof (induction ls arbitrary: acc h)
  case Nil
  then show ?case by simp
next
  case (Cons l ls)
  obtain r h1 where g: "get_clickup_tasks env tok (list_id l) h = (r, h1)"
    by (cases "get_clickup_tasks env tok (list_id l) h")
  obtain rs h2 where f: "fetch_each env tok ls h1 = (rs, h2)"
    by (cases "fetch_each env tok ls h1")
  show ?case
    using g f Cons.IH [of _ h1]
    by (cases r) (auto simp: tasks_of_def)
qed

lemma folder_source_table:
  "get_all_tasks_from_source env tok fid ''folder'' h =
     (case get_lists_from_folder env tok fid h of
        (None, h1) \<Rightarrow> (None, h1)
      | (Some ls, h1) \<Rightarrow>
          if ls = [] then (None, h1)
          else case fetch_each env tok ls h1 of
                 (rs, h2) \<Rightarrow>
                   (if concat (map tasks_of rs) = [] then None
                    else Some (concat (map tasks_of rs)), h2))"
  by (auto simp: get_all_tasks_from_source_def folder_tasks_fetch_each
           split: prod.splits option.splits)

text \<open>
  Claim C2, as the code has it. For a folder the fetch first resolves the folder to its
  lists; when the resolution fails, or the folder has no list, the whole fetch fails.
  Otherwise it fetches each list once, in order, and returns the concatenation of the
  tasks of the lists whose fetch succeeded, skipping a list whose fetch failed; it fails
  when that concatenation is empty. When every list is fetched, the result is the complete
  concatenation.
\<close>

theorem C2_folder_fetch:
  "get_all_tasks_from_source env tok fid ''folder'' h =
     (case get_lists_from_folder env tok fid h of
        (None, h1) \<Rightarrow> (None, h1)
      | (Some ls, h1) \<Rightarrow>
          if ls = [] then (None, h1)
          else case fetch_each env tok ls h1 of
                 (rs, h2) \<Rightarrow>
                   (if concat (map tasks_of rs) = [] then None
                    else Some (concat (map tasks_of rs)), h2))
   \<and> (fst (get_lists_from_folder env tok fid h) = None \<longrightarrow>
        fst (get_all_tasks_from_source env tok fid ''folder'' h) = None)
   \<and> (\<forall>ls h1 rs h2 ts.
        get_lists_from_folder env tok fid h = (Some ls, h1)
        \<and> fetch_each env tok ls h1 = (rs, h2) \<and> None \<notin> set rs
        \<and> fst (get_all_tasks_from_source env tok fid ''folder'' h) = Some ts \<longrightarrow>
        ts = concat (map the rs))"
proof (intro conjI allI impI)
  show "get_all_tasks_from_source env tok fid ''folder'' h =
     (case get_lists_from_folder env tok fid h of
        (None, h1) \<Rightarrow> (None, h1)
      | (Some ls, h1) \<Rightarrow>
          if ls = [] then (None, h1)
          else case fetch_each env tok ls h1 of
                 (rs, h2) \<Rightarrow>
                   (if concat (map tasks_of rs) = [] then None
                    else Some (concat (map tasks_of rs)), h2))"
    by (rule folder_source_table)
next
  assume "fst (get_lists_from_folder env tok fid h) = None"
  then show "fst (get_all_tasks_from_source env tok fid ''folder'' h) = None"
    by (cases "get_lists_from_folder env tok fid h") (simp add: folder_source_table)
next
  fix ls h1 rs h2 ts
  assume a: "get_lists_from_folder env tok fid h = (Some ls, h1)
        \<and> fetch_each env tok ls h1 = (rs, h2) \<and> None \<notin> set rs
        \<and> fst (get_all_tasks_from_source env tok fid ''folder'' h) = Some ts"
  then have m: "map tasks_of rs = map the rs"
    by (intro map_cong) (auto simp: tasks_of_def split: option.splits)
  from a have g: "get_lists_from_folder env tok fid h = (Some ls, h1)"
    and f: "fetch_each env tok ls h1 = (rs, h2)"
    and r: "fst (get_all_tasks_from_source env tok fid ''folder'' h) = Some ts"
    by blast+
  from r show "ts = concat (map the rs)"
    by (cases "ls = []") (simp_all add: folder_source_table g f m split: if_splits)
qed

text \<open>
  The claim as the specification words it excludes a partial result. In the example the
  folder resolves to the lists \<open>L1\<close> and \<open>L2\<close>, the fetch of \<open>L2\<close> fails after three
  timeouts, and the fetch of the folder returns the tasks of \<open>L1\<close> alone.
\<close>

lemma example_fetch_L1:
  "get_clickup_tasks example_remote ''k'' ''L1'' h =
     (Some [task_A, task_B, task_C], h @ [GetListTasks ''k'' ''L1'' 15])"
  by (simp add: tasks_table example_L1_reply retryable_def verdict_def raise_for_status_def
        calls_simps)

lemma example_fetch_L2:
  "get_clickup_tasks example_remote ''k'' ''L2'' h =
     (None, h @ [GetListTasks ''k'' ''L2'' 15, GetListTasks ''k'' ''L2'' 20,
                 GetListTasks ''k'' ''L2'' 25])"
  by (simp add: tasks_table example_L2_replies retryable_def verdict_def calls_simps)

lemma example_folder_F:
  "get_lists_from_folder example_remote ''k'' ''F'' [] =
     (Some [list_L1, list_L2],
      [GetFolder ''k'' ''F'' 15, GetFolder ''k'' ''F'' 20, GetFolder ''k'' ''F'' 25])"
  by (simp add: folder_table example_folder_replies retryable_def verdict_def
        raise_for_status_def calls_simps)

lemma example_folder_X:
  "get_lists_from_folder example_remote ''k'' ''X'' [] = (None, [GetFolder ''k'' ''X'' 15])"
  by (simp add: folder_table folder_reply_def example_remote_def retryable_def verdict_def
        raise_for_status_def calls_simps)

theorem C2_counterexample:
  "get_lists_from_folder example_remote ''k'' ''F'' [] =
     (Some [list_L1, list_L2],
      [GetFolder ''k'' ''F'' 15, GetFolder ''k'' ''F'' 20, GetFolder ''k'' ''F'' 25])
   \<and> fst (get_clickup_tasks example_remote ''k'' (list_id list_L2)
            [GetFolder ''k'' ''F'' 15, GetFolder ''k'' ''F'' 20, GetFolder ''k'' ''F'' 25,
             GetListTasks ''k'' ''L1'' 15]) = None
   \<and> fst (get_all_tasks_from_source example_remote ''k'' ''F'' ''folder'' []) =
       Some [task_A, task_B, task_C]"
  by (simp add: folder_source_table example_folder_F example_fetch_L1 example_fetch_L2
        list_L1_def list_L2_def tasks_of_def)

theorem C2_witness:
  "fst (get_all_tasks_from_source example_remote ''k'' ''X'' ''folder'' []) = None
   \<and> fst (get_all_tasks_from_source example_remote ''k'' ''F'' ''folder'' []) =
       Some (concat (map tasks_of [Some [task_A, task_B, task_C], None]))"
  using C2_folder_fetch [of example_remote "''k''" "''X''" "[]"]
    C2_folder_fetch [of example_remote "''k''" "''F''" "[]"]
  by (simp add: example_folder_F example_folder_X example_fetch_L1 example_fetch_L2
        list_L1_def list_L2_def tasks_of_def)

subsection \<open>The page update\<close>

text \<open>
  Claim C9. The update step fetches the page once. When the fetch raises or is answered
  with an error status, the step returns \<open>False\<close> and submits nothing. Otherwise it
  submits exactly one update, carrying the fetched version number plus one, and returns
  \<open>True\<close> when the submission is accepted and \<open>False\<close> when it raises or is answered
  with an error status (a version conflict, for one): in every case the calls made are the
  one fetch, followed by at most the one submission, with no second attempt of either.
\<close>

theorem C9_page_update:
  "((\<exists>e. page_api env h c p = Raises e)
      \<or> (\<exists>sc info. page_api env h c p = Responds sc info \<and> raise_for_status sc) \<longrightarrow>
      update_confluence_with_image env ts c p a fn pn h = (False, h @ [GetPage c p]))
   \<and> (page_api env h c p = Responds sc info \<and> \<not> raise_for_status sc \<longrightarrow>
        update_confluence_with_image env ts c p a fn pn h =
          (case update_api env (h @ [GetPage c p]) c p (version_number info + 1)
                  (page_title info) (page_type info) pn ts fn of
             Raises e \<Rightarrow> False
           | Responds sc2 u \<Rightarrow> \<not> raise_for_status sc2,
           h @ [GetPage c p,
                PutPage c p (version_number info + 1) (page_title info) (page_type info)
                  pn ts fn]))"
proof (intro conjI impI)
  assume "(\<exists>e. page_api env h c p = Raises e)
      \<or> (\<exists>sc info. page_api env h c p = Responds sc info \<and> raise_for_status sc)"
  then show "update_confluence_with_image env ts c p a fn pn h = (False, h @ [GetPage c p])"
    by (auto simp: update_confluence_with_image_def)
next
  assume "page_api env h c p = Responds sc info \<and> \<not> raise_for_status sc"
  then show "update_confluence_with_image env ts c p a fn pn h =
          (case update_api env (h @ [GetPage c p]) c p (version_number info + 1)
                  (page_title info) (page_type info) pn ts fn of
             Raises e \<Rightarrow> False
           | Responds sc2 u \<Rightarrow> \<not> raise_for_status sc2,
           h @ [GetPage c p,
                PutPage c p (version_number info + 1) (page_title info) (page_type info)
                  pn ts fn])"
    by (auto simp: update_confluence_with_image_def Let_def split: outcome.splits)
qed

theorem C9_witness:
  "update_confluence_with_image example_remote ''2026-01-01 00:00:00'' example_confluence
     (Some ''42'') ''a1'' ''gantt-p-20260101.png'' ''P'' [] =
     (True,
      [GetPage example_confluence (Some ''42''),
       PutPage example_confluence (Some ''42'') 8 ''Plan'' ''page'' ''P''
         ''2026-01-01 00:00:00'' ''gantt-p-20260101.png''])"
  using C9_page_update [of example_remote "[]" example_confluence "Some ''42''"
      "''2026-01-01 00:00:00''" "''a1''" "''gantt-p-20260101.png''" "''P''" 200
      "\<lparr>version_number = 7, page_title = ''Plan'', page_type = ''page''\<rparr>"]
  by (simp add: example_remote_def raise_for_status_def)

subsection \<open>The orchestrator\<close>

lemma run_length:
  "run_mappings env clock today ts cfg ms acc h = (Inr bs, h') \<Longrightarrow>
     length bs = length acc + length ms"
proof (induction ms arbitrary: acc h)
  case Nil
  then show ?case by simp
next
  case (Cons m ms)
  obtain r h1 where p: "process_mapping env clock today ts cfg m h = (r, h1)"
    by (cases "process_mapping env clock today ts cfg m h")
  show ?case
  proof (cases r)
    case (Inl e)
    with p Cons.prems show ?thesis by simp
  next
    case (Inr b)
    with p Cons.prems have "run_mappings env clock today ts cfg ms (acc @ [b]) h1 = (Inr bs, h')"
      by simp
    from Cons.IH [OF this] show ?thesis by simp
  qed
qed

lemma run_append:
  "run_mappings env clock today ts cfg (ms1 @ ms2) acc h =
     (case run_mappings env clock today ts cfg ms1 acc h of
        (Inl e, h1) \<Rightarrow> (Inl e, h1)
      | (Inr bs, h1) \<Rightarrow> run_mappings env clock today ts cfg ms2 bs h1)"
proof (induction ms1 arbitrary: acc h)
  case Nil
  then show ?case by simp
next
  case (Cons m ms1)
  obtain r h1 where p: "process_mapping env clock today ts cfg m h = (r, h1)"
    by (cases "process_mapping env clock today ts cfg m h")
  show ?case
    using p Cons.IH by (cases r) simp_all
qed

lemma all_true_replicate:
  "(length bs - length (filter (\<lambda>r. r) bs) = 0) = (bs = replicate (length bs) True)"
proof (induction bs)
  case Nil
  then show ?case by simp
next
  case (Cons b bs)
  have le: "length (filter (\<lambda>r. r) bs) \<le> length bs" by simp
  show ?case
  proof (cases b)
    case True
    with Cons.IH show ?thesis by simp
  next
    case False
    with le show ?thesis by (simp add: Suc_diff_le)
  qed
qed

lemma main_exit_zero:
  assumes "mappings cfg \<noteq> []"
  shows "fst (main env clock today ts (Loaded cfg) h) = 0 \<longleftrightarrow>
     (\<exists>h'. run_mappings env clock today ts cfg (mappings cfg) [] h =
              (Inr (replicate (length (mappings cfg)) True), h'))"
proof -
  obtain r h1 where p: "run_mappings env clock today ts cfg (mappings cfg) [] h = (r, h1)"
    by (cases "run_mappings env clock today ts cfg (mappings cfg) [] h")
  show ?thesis
  proof (cases r)
    case (Inl e)
    with p assms show ?thesis by (simp add: main_def)
  next
    case (Inr bs)
    with p have l: "length bs = length (mappings cfg)"
      using run_length [of env clock today ts cfg "mappings cfg" "[]" h bs h1] by simp
    from all_true_replicate [of bs] l p Inr assms show ?thesis
      by (simp add: main_def Let_def)
  qed
qed

lemma generate_ABC:
  "\<exists>ch. generate_gantt_image utc_clock [task_A, task_B, task_C] pn = Inr (Some ch)"
  by (simp only: generate_table collect_ABC sum.case) (simp add: days_def dt_max_def)

lemma list_source:
  "get_all_tasks_from_source env tok sid ''list'' h =
     (case get_clickup_tasks env tok sid h of
        (None, h1) \<Rightarrow> (None, h1)
      | (Some ts, h1) \<Rightarrow> (if ts = [] then None else Some ts, h1))"
  by (auto simp: get_all_tasks_from_source_def Let_def split: prod.splits option.splits)

lemma example_fetch_LX:
  "get_clickup_tasks example_remote ''k'' ''LX'' h = (None, h @ [GetListTasks ''k'' ''LX'' 15])"
  by (simp add: tasks_table tasks_reply_def example_remote_def retryable_def verdict_def
        raise_for_status_def calls_simps)

lemma example_fetch_L9:
  "get_clickup_tasks example_remote ''k'' ''L9'' h =
     (Some [task_last_day], h @ [GetListTasks ''k'' ''L9'' 15])"
  by (simp add: tasks_table tasks_reply_def example_remote_def retryable_def verdict_def
        raise_for_status_def calls_simps)

lemma process_missing:
  "process_mapping example_remote utc_clock today ts (example_config ms) mapping_missing h =
     (Inr False, h @ [GetListTasks ''k'' ''LX'' 15])"
  by (simp add: process_mapping_def mapping_source_def mapping_missing_def example_config_def
        list_source example_fetch_LX)

lemma generate_last_day:
  "generate_gantt_image utc_clock [task_last_day] pn = Inl OverflowError"
  by (simp add: generate_table resolve_task_table task_examples decode_examples
        days_def dt_max_def)

lemma process_overflow:
  "process_mapping example_remote utc_clock today ts (example_config ms) mapping_overflow h =
     (Inl OverflowError, h @ [GetListTasks ''k'' ''L9'' 15])"
  by (simp add: process_mapping_def mapping_source_def mapping_overflow_def example_config_def
        list_source example_fetch_L9 generate_last_day)

lemma example_upload:
  "upload_attachment_to_confluence example_remote c p img (image_filename pn today) h =
     (Inr (Some ''a1''),
      h @ [GetAttachments c p, PostAttachment c p (image_filename pn today) img])"
  by (simp add: upload_attachment_to_confluence_def example_remote_def raise_for_status_def
        image_filename_def Let_def)

lemma example_update:
  "update_confluence_with_image example_remote ts c p a fn pn h =
     (True, h @ [GetPage c p, PutPage c p 8 ''Plan'' ''page'' pn ts fn])"
  by (simp add: update_confluence_with_image_def example_remote_def raise_for_status_def
        Let_def)

lemma process_ok:
  "\<exists>h'. process_mapping example_remote utc_clock today ts (example_config ms) mapping_ok h =
     (Inr True, h')"
proof -
  obtain ch where ch: "generate_gantt_image utc_clock [task_A, task_B, task_C] ''P'' = Inr (Some ch)"
    using generate_ABC by blast
  show ?thesis
    by (simp add: process_mapping_def mapping_source_def mapping_ok_def example_config_def
          project_name_of_def list_source example_fetch_L1 ch example_upload example_update
          Let_def)
qed

text \<open>
  Claim C4, as the code has it. The exit code is 0 or 1. It is 1 when the configuration is
  not loaded or has no mapping. With mappings, it is 0 exactly when the loop ends with one
  verdict per mapping, all of them \<open>True\<close>. The loop takes the mappings in order: a
  mapping that returns a verdict, \<open>True\<close> or \<open>False\<close>, adds it to the results and the
  loop goes on with the remaining mappings from the calls made so far, so a loop that ends
  has one verdict per mapping. Within a mapping, a failure of a step returns \<open>False\<close>
  with no call of a later step: no source, a failed fetch, a renderer that returns
  \<open>None\<close>, an upload that returns \<open>None\<close>, and an update that returns \<open>False\<close>. An
  error raised in a mapping is no verdict: it leaves the loop, the remaining mappings are
  not processed, and the exit code is 1.
\<close>

theorem C4_orchestrator:
  "fst (main env clock today ts Exited h) = 1
   \<and> (mappings cfg = [] \<longrightarrow> fst (main env clock today ts (Loaded cfg) h) = 1)
   \<and> (fst (main env clock today ts loaded h) = 0 \<or> fst (main env clock today ts loaded h) = 1)
   \<and> (mappings cfg \<noteq> [] \<longrightarrow>
        (fst (main env clock today ts (Loaded cfg) h) = 0 \<longleftrightarrow>
          (\<exists>h'. run_mappings env clock today ts cfg (mappings cfg) [] h =
                   (Inr (replicate (length (mappings cfg)) True), h'))))
   \<and> (process_mapping env clock today ts cfg m h = (Inr b, h1) \<longrightarrow>
        run_mappings env clock today ts cfg (m # ms) acc h =
          run_mappings env clock today ts cfg ms (acc @ [b]) h1)
   \<and> (process_mapping env clock today ts cfg m h = (Inl e, h1) \<longrightarrow>
        run_mappings env clock today ts cfg (m # ms) acc h = (Inl e, h1))
   \<and> (run_mappings env clock today ts cfg ms acc h = (Inr bs, h2) \<longrightarrow>
        length bs = length acc + length ms)
   \<and> (mappings cfg \<noteq> []
        \<and> run_mappings env clock today ts cfg (mappings cfg) [] h = (Inl e, h2) \<longrightarrow>
        main env clock today ts (Loaded cfg) h = (1, h2))
   \<and> (mapping_source m = None \<longrightarrow>
        process_mapping env clock today ts cfg m h = (Inr False, h))
   \<and> (mapping_source m = Some (sid, st)
        \<and> get_all_tasks_from_source env (clickup_api_token cfg) sid st h = (None, h1) \<longrightarrow>
        process_mapping env clock today ts cfg m h = (Inr False, h1))
   \<and> (mapping_source m = Some (sid, st)
        \<and> get_all_tasks_from_source env (clickup_api_token cfg) sid st h = (Some tasks, h1)
        \<and> generate_gantt_image clock tasks (project_name_of m) = Inr None \<longrightarrow>
        process_mapping env clock today ts cfg m h = (Inr False, h1))
   \<and> (mapping_source m = Some (sid, st)
        \<and> get_all_tasks_from_source env (clickup_api_token cfg) sid st h = (Some tasks, h1)
        \<and> generate_gantt_image clock tasks (project_name_of m) = Inr (Some img)
        \<and> upload_attachment_to_confluence env (confluence cfg) (confluence_page_id m) img
             (image_filename (project_name_of m) today) h1 = (Inr None, h2) \<longrightarrow>
        process_mapping env clock today ts cfg m h = (Inr False, h2))
   \<and> (mapping_source m = Some (sid, st)
        \<and> get_all_tasks_from_source env (clickup_api_token cfg) sid st h = (Some tasks, h1)
        \<and> generate_gantt_image clock tasks (project_name_of m) = Inr (Some img)
        \<and> upload_attachment_to_confluence env (confluence cfg) (confluence_page_id m) img
             (image_filename (project_name_of m) today) h1 = (Inr (Some aid), h2)
        \<and> aid \<noteq> []
        \<and> update_confluence_with_image env ts (confluence cfg) (confluence_page_id m) aid
             (image_filename (project_name_of m) today) (project_name_of m) h2 = (ok, h3) \<longrightarrow>
        process_mapping env clock today ts cfg m h = (Inr ok, h3))"
proof (intro conjI impI)
  show "fst (main env clock today ts Exited h) = 1"
    by (simp add: main_def)
next
  assume "mappings cfg = []"
  then show "fst (main env clock today ts (Loaded cfg) h) = 1"
    by (simp add: main_def)
next
  show "fst (main env clock today ts loaded h) = 0 \<or> fst (main env clock today ts loaded h) = 1"
    by (auto simp: main_def Let_def split: load_result.splits prod.splits sum.splits)
next
  assume "mappings cfg \<noteq> []"
  then show "fst (main env clock today ts (Loaded cfg) h) = 0 \<longleftrightarrow>
          (\<exists>h'. run_mappings env clock today ts cfg (mappings cfg) [] h =
                   (Inr (replicate (length (mappings cfg)) True), h'))"
    by (rule main_exit_zero)
next
  assume "process_mapping env clock today ts cfg m h = (Inr b, h1)"
  then show "run_mappings env clock today ts cfg (m # ms) acc h =
          run_mappings env clock today ts cfg ms (acc @ [b]) h1"
    by simp
next
  assume "process_mapping env clock today ts cfg m h = (Inl e, h1)"
  then show "run_mappings env clock today ts cfg (m # ms) acc h = (Inl e, h1)"
    by simp
next
  assume "run_mappings env clock today ts cfg ms acc h = (Inr bs, h2)"
  then show "length bs = length acc + length ms"
    by (rule run_length)
next
  assume "mappings cfg \<noteq> []
        \<and> run_mappings env clock today ts cfg (mappings cfg) [] h = (Inl e, h2)"
  then show "main env clock today ts (Loaded cfg) h = (1, h2)"
    by (simp add: main_def)
next
  assume "mapping_source m = None"
  then show "process_mapping env clock today ts cfg m h = (Inr False, h)"
    by (simp add: process_mapping_def)
next
  assume "mapping_source m = Some (sid, st)
        \<and> get_all_tasks_from_source env (clickup_api_token cfg) sid st h = (None, h1)"
  then show "process_mapping env clock today ts cfg m h = (Inr False, h1)"
    by (simp add: process_mapping_def)
next
  assume "mapping_source m = Some (sid, st)
        \<and> get_all_tasks_from_source env (clickup_api_token cfg) sid st h = (Some tasks, h1)
        \<and> generate_gantt_image clock tasks (project_name_of m) = Inr None"
  then show "process_mapping env clock today ts cfg m h = (Inr False, h1)"
    by (simp add: process_mapping_def)
next
  assume "mapping_source m = Some (sid, st)
        \<and> get_all_tasks_from_source env (clickup_api_token cfg) sid st h = (Some tasks, h1)
        \<and> generate_gantt_image clock tasks (project_name_of m) = Inr (Some img)
        \<and> upload_attachment_to_confluence env (confluence cfg) (confluence_page_id m) img
             (image_filename (project_name_of m) today) h1 = (Inr None, h2)"
  then show "process_mapping env clock today ts cfg m h = (Inr False, h2)"
    by (simp add: process_mapping_def)
next
  assume "mapping_source m = Some (sid, st)
        \<and> get_all_tasks_from_source env (clickup_api_token cfg) sid st h = (Some tasks, h1)
        \<and> generate_gantt_image clock tasks (project_name_of m) = Inr (Some img)
        \<and> upload_attachment_to_confluence env (confluence cfg) (confluence_page_id m) img
             (image_filename (project_name_of m) today) h1 = (Inr (Some aid), h2)
        \<and> aid \<noteq> []
        \<and> update_confluence_with_image env ts (confluence cfg) (confluence_page_id m) aid
             (image_filename (project_name_of m) today) (project_name_of m) h2 = (ok, h3)"
  then show "process_mapping env clock today ts cfg m h = (Inr ok, h3)"
    by (simp add: process_mapping_def)
qed

text \<open>
  The claim as the specification words it has every mapping attempted after a failure.
  With the mapping of the last day of 9999 first, the renderer raises, the process ends
  with code 1, and the only call made is the fetch of that mapping: the second mapping is
  never attempted.
\<close>

theorem C4_counterexample:
  "main example_remote utc_clock ''20260101'' ''2026-01-01 00:00:00''
     (Loaded (example_config [mapping_overflow, mapping_ok])) [] =
     (1, [GetListTasks ''k'' ''L9'' 15])"
  by (simp add: main_def example_config_def process_overflow [unfolded example_config_def])

lemma mappings_example: "mappings (example_config ms) = ms"
  by (simp add: example_config_def)

theorem C4_witness:
  "fst (run_mappings example_remote utc_clock ''20260101'' ''2026-01-01 00:00:00''
          (example_config [mapping_missing, mapping_ok]) [mapping_missing, mapping_ok] [] []) =
     Inr [False, True]
   \<and> fst (main example_remote utc_clock ''20260101'' ''2026-01-01 00:00:00''
            (Loaded (example_config [mapping_missing, mapping_ok])) []) = 1
   \<and> fst (main example_remote utc_clock ''20260101'' ''2026-01-01 00:00:00''
            (Loaded (example_config [mapping_ok])) []) = 0"
proof -
  let ?d = "''20260101''" and ?t = "''2026-01-01 00:00:00''"
  let ?c2 = "example_config [mapping_missing, mapping_ok]"
  let ?c1 = "example_config [mapping_ok]"
  let ?h1 = "[GetListTasks ''k'' ''LX'' 15]"
  note zero_or_one = C4_orchestrator [THEN conjunct2, THEN conjunct2, THEN conjunct1]
  note exit_iff =
    C4_orchestrator [THEN conjunct2, THEN conjunct2, THEN conjunct2, THEN conjunct1]
  note step =
    C4_orchestrator [THEN conjunct2, THEN conjunct2, THEN conjunct2, THEN conjunct2,
      THEN conjunct1]
  have p1: "process_mapping example_remote utc_clock ?d ?t ?c2 mapping_missing [] = (Inr False, ?h1)"
    using process_missing [of ?d ?t "[mapping_missing, mapping_ok]" "[]"] by simp
  obtain h2 where p2: "process_mapping example_remote utc_clock ?d ?t ?c2 mapping_ok ?h1 = (Inr True, h2)"
    using process_ok [of ?d ?t "[mapping_missing, mapping_ok]" ?h1] by blast
  obtain h3 where p3: "process_mapping example_remote utc_clock ?d ?t ?c1 mapping_ok [] = (Inr True, h3)"
    using process_ok [of ?d ?t "[mapping_ok]" "[]"] by blast
  have s1: "run_mappings example_remote utc_clock ?d ?t ?c2 [mapping_missing, mapping_ok] [] [] =
      run_mappings example_remote utc_clock ?d ?t ?c2 [mapping_ok] ([] @ [False]) ?h1"
    by (rule step [THEN mp, OF p1])
  have s2: "run_mappings example_remote utc_clock ?d ?t ?c2 [mapping_ok] [False] ?h1 =
      run_mappings example_remote utc_clock ?d ?t ?c2 [] ([False] @ [True]) h2"
    by (rule step [THEN mp, OF p2])
  from s1 s2 have r2: "run_mappings example_remote utc_clock ?d ?t ?c2
      [mapping_missing, mapping_ok] [] [] = (Inr [False, True], h2)"
    by simp
  have "run_mappings example_remote utc_clock ?d ?t ?c1 [mapping_ok] [] [] =
      run_mappings example_remote utc_clock ?d ?t ?c1 [] ([] @ [True]) h3"
    by (rule step [THEN mp, OF p3])
  then have r1: "run_mappings example_remote utc_clock ?d ?t ?c1 [mapping_ok] [] [] = (Inr [True], h3)"
    by simp
  have ne2: "mappings ?c2 \<noteq> []" and ne1: "mappings ?c1 \<noteq> []"
    by (simp_all add: mappings_example)
  from exit_iff [THEN mp, OF ne2, of example_remote utc_clock ?d ?t "[]"] r2
  have "fst (main example_remote utc_clock ?d ?t (Loaded ?c2) []) \<noteq> 0"
    by (simp add: mappings_example)
  moreover have "fst (main example_remote utc_clock ?d ?t (Loaded ?c2) []) = 0
      \<or> fst (main example_remote utc_clock ?d ?t (Loaded ?c2) []) = 1"
    by (rule zero_or_one)
  ultimately have e2: "fst (main example_remote utc_clock ?d ?t (Loaded ?c2) []) = 1"
    by auto
  from exit_iff [THEN mp, OF ne1, of example_remote utc_clock ?d ?t "[]"] r1
  have e1: "fst (main example_remote utc_clock ?d ?t (Loaded ?c1) []) = 0"
    by (simp add: mappings_example)
  from r2 e2 e1 show ?thesis by simp
qed

end
